theory Spec2Isabelle
  imports Main "HOL-Library.Sublist"
begin

section \<open>The administrator report of \<open>src/index.js\<close>\<close>

text \<open>
  \<open>main\<close> of \<open>src/index.js\<close> reads its inputs, asks the GitHub API for the direct
  collaborators and the admin teams of a repository, merges their logins, and reports on a
  tracking issue. The embedding below follows \<open>main\<close> statement by statement.

  \<^item> A JavaScript string is a \<open>string\<close>; a \<open>char\<close> stands for a code unit below 256.
  \<^item> A remote call either resolves with a value or rejects with an error: \<open>api_error + 'a\<close>.
    The remote side is a record of functions from the arguments of a call to its result.
    Pagination is drained by \<open>client.paginate\<close>, so a listing is a finite list.
  \<^item> Every remote call and every \<open>core.setFailed\<close> is an event; a run yields the list of
    its events in program order, and how \<open>main\<close> ended. A request is recorded when it is
    issued, whether it then resolves or rejects.
  \<^item> \<open>core.info\<close> only writes to the log and is left out.
  \<^item> \<open>core.getInput\<close> is not part of the source file; the record \<open>inputs\<close> holds the
    strings it returned.
\<close>

subsection \<open>Data\<close>

record inputs =
  actor :: string
  body :: string
  close_issue :: string
  issue_number :: string
  issue_org :: string
  org :: string
  repo :: string

text \<open>The error object of a rejected request: the code reads \<open>e.status\<close> and \<open>e.message\<close>.\<close>

record api_error =
  status :: nat
  message :: string

text \<open>An entry of \<open>repos.listCollaborators\<close>: \<open>member.login\<close>, \<open>member.permissions.admin\<close>.\<close>

record collaborator =
  login :: string
  permissions_admin :: bool

text \<open>An entry of \<open>repos.listTeams\<close>: \<open>team.name\<close>, \<open>team.slug\<close>, \<open>team.permission\<close>.\<close>

record team =
  name :: string
  slug :: string
  permission :: string

text \<open>An entry of \<open>teams.listMembersInOrg\<close>: only \<open>member.login\<close> is read.\<close>

record org_member =
  member_login :: string

text \<open>The data of \<open>users.getByUsername\<close>: \<open>user.email\<close> is a string or \<open>null\<close>.\<close>

record user =
  email :: "string option"

text \<open>
  The two clients. \<open>client\<close> (built from \<open>admin_token\<close>) serves the first five calls,
  \<open>commentClient\<close> (built from \<open>token\<close>) the last two.
\<close>

record api =
  repos_get :: "string \<Rightarrow> string \<Rightarrow> api_error + unit"
  repos_listCollaborators :: "string \<Rightarrow> string \<Rightarrow> api_error + collaborator list"
  repos_listTeams :: "string \<Rightarrow> string \<Rightarrow> api_error + team list"
  teams_listMembersInOrg :: "string \<Rightarrow> string \<Rightarrow> api_error + org_member list"
  users_getByUsername :: "string \<Rightarrow> api_error + user"
  issues_createComment :: "string \<Rightarrow> string \<Rightarrow> string \<Rightarrow> string \<Rightarrow> api_error + unit"
  issues_update :: "string \<Rightarrow> string \<Rightarrow> string \<Rightarrow> api_error + unit"

text \<open>
  The events of a run. \<open>GetRepo owner repo\<close>, \<open>ListCollaborators owner repo\<close>,
  \<open>ListTeams owner repo\<close>, \<open>ListMembersInOrg org team_slug\<close>, \<open>GetByUsername username\<close>,
  \<open>CreateComment owner repo issue_number body\<close>, \<open>SetFailed message\<close>, and
  \<open>UpdateIssue owner repo issue_number\<close>, the request with \<open>state: 'closed'\<close>.
\<close>

datatype event =
    GetRepo string string
  | ListCollaborators string string
  | ListTeams string string
  | ListMembersInOrg string string
  | GetByUsername string
  | CreateComment string string string string
  | SetFailed string
  | UpdateIssue string string string

text \<open>
  What leaves \<open>main\<close> other than its last statement: the \<open>return\<close> of line 65, a rejected
  request outside every \<open>try\<close>, or the \<open>TypeError\<close> of calling \<open>filter\<close> on
  \<open>undefined\<close> (lines 85 and 99), tagged with the variable that was undefined.
\<close>

datatype thrown = RequestError api_error | TypeError string

datatype completion = Returned | Threw thrown

type_synonym 'a run = "event list \<times> (completion + 'a)"

subsection \<open>Sequencing\<close>

definition andThen :: "'a run \<Rightarrow> ('a \<Rightarrow> 'b run) \<Rightarrow> 'b run" where
  "andThen m f =
     (case snd m of
        Inl c \<Rightarrow> (fst m, Inl c)
      | Inr x \<Rightarrow> (fst m @ fst (f x), snd (f x)))"

definition emit :: "event \<Rightarrow> unit run" where
  "emit ev = ([ev], Inr ())"

definition stop :: "completion \<Rightarrow> 'a run" where
  "stop c = ([], Inl c)"

definition finish :: "unit run \<Rightarrow> event list \<times> completion" where
  "finish m = (fst m, case snd m of Inl c \<Rightarrow> c | Inr u \<Rightarrow> Returned)"

subsection \<open>Line 44 and line 51: the queried repository\<close>

text \<open>
  \<open>String.prototype.trim\<close> strips white space and line terminators from both ends; below
  256 these are the code units 9 to 13, 32 and 160.
\<close>

definition is_white_space :: "char \<Rightarrow> bool" where
  "is_white_space c \<longleftrightarrow>
     c \<in> {CHR 0x09, CHR 0x0A, CHR 0x0B, CHR 0x0C, CHR 0x0D, CHR 0x20, CHR 0xA0}"

definition trim :: "string \<Rightarrow> string" where
  "trim s = rev (dropWhile is_white_space (rev (dropWhile is_white_space s)))"

text \<open>
  \<open>s.split(' ')\<close>: the pieces between occurrences of the one character U+0020; the empty
  string gives one empty piece, two adjacent spaces give an empty piece between them. The
  result is never empty (\<open>split_space_not_Nil\<close> below), so the first branch of the
  \<^theory_text>\<open>case\<close> is never taken and line 51 reads an element that exists.
\<close>

fun split_space :: "string \<Rightarrow> string list" where
  "split_space [] = [[]]"
| "split_space (c # cs) =
     (if c = CHR '' '' then [] # split_space cs
      else (case split_space cs of
              [] \<Rightarrow> [[c]]
            | t # ts \<Rightarrow> (c # t) # ts))"

definition queryRepo :: "inputs \<Rightarrow> string" where
  "queryRepo inp = last (split_space (trim (body inp)))"

definition closeIssue :: "inputs \<Rightarrow> bool" where
  "closeIssue inp \<longleftrightarrow> close_issue inp = ''true''"

subsection \<open>The comment bodies\<close>

text \<open>The template literals of lines 64, 67, 81, 95, 114, 120, 121, 123 and 129.\<close>

definition repoNotFound_body :: "inputs \<Rightarrow> string" where
  "repoNotFound_body inp =
     ''@'' @ actor inp @ ''\<newline>\<newline>There was an error retrieving the direct admins for `''
     @ repo inp @ ''`:\<newline>\<newline>The repository `'' @ org inp @ ''/'' @ queryRepo inp
     @ ''` does not exist in the target organization `'' @ org inp
     @ ''`.\<newline>\<newline>Ensure you've provided the correct organization and repository name.''"

definition verification_body :: "inputs \<Rightarrow> string \<Rightarrow> string" where
  "verification_body inp msg =
     ''@'' @ actor inp @ ''\<newline>\<newline>There was an error verifying the repository ''
     @ queryRepo inp @ '' exists:\<newline>\<newline>'' @ msg"

definition collaborators_body :: "inputs \<Rightarrow> string \<Rightarrow> string" where
  "collaborators_body inp msg =
     ''@'' @ actor inp @ ''\<newline>\<newline>There was an error retrieving the direct admins for `''
     @ org inp @ ''/'' @ repo inp @ ''`:\<newline>\<newline>'' @ msg"

definition teams_body :: "inputs \<Rightarrow> string \<Rightarrow> string" where
  "teams_body inp msg =
     ''@'' @ actor inp @ ''\<newline>\<newline>There was an error retrieving the teams for `''
     @ org inp @ ''/'' @ repo inp @ ''`:\<newline>\<newline>'' @ msg"

definition members_body :: "inputs \<Rightarrow> string \<Rightarrow> string \<Rightarrow> string" where
  "members_body inp team_name msg =
     ''@'' @ actor inp @ ''\<newline>\<newline>There was an error retrieving the members for ''
     @ team_name @ '':\<newline>\<newline>'' @ msg"

definition noAdmins_message :: "inputs \<Rightarrow> string" where
  "noAdmins_message inp = ''There are no admins for '' @ queryRepo inp"

definition noAdmins_body :: "inputs \<Rightarrow> string" where
  "noAdmins_body inp = ''@'' @ actor inp @ ''\<newline>\<newline>There are no admins for '' @ queryRepo inp"

definition success_header :: "inputs \<Rightarrow> string" where
  "success_header inp =
     ''The following users have been identified as having `administrator` access to https://github.com/''
     @ org inp @ ''/'' @ queryRepo inp @ '':\<newline>\<newline>''"

text \<open>\<open>`- ${user.email}\n`\<close>: a \<open>null\<close> email is rendered as the four letters \<open>null\<close>.\<close>

definition email_line :: "user \<Rightarrow> string" where
  "email_line u = ''- '' @ (case email u of None \<Rightarrow> ''null'' | Some s \<Rightarrow> s) @ ''\<newline>''"

subsection \<open>Lines 31 to 39: \<open>sendComment\<close>\<close>

definition sendComment :: "api \<Rightarrow> string \<Rightarrow> string \<Rightarrow> string \<Rightarrow> string \<Rightarrow> unit run" where
  "sendComment api owner rp issue b =
     ([CreateComment owner rp issue b],
      case issues_createComment api owner rp issue b of
        Inl e \<Rightarrow> Inl (Threw (RequestError e))
      | Inr u \<Rightarrow> Inr ())"

text \<open>Every comment of \<open>main\<close> goes to \<open>issueOrg\<close>, \<open>repo\<close>, \<open>issueNumber\<close>.\<close>

definition comment :: "api \<Rightarrow> inputs \<Rightarrow> string \<Rightarrow> unit run" where
  "comment api inp b = sendComment api (issue_org inp) (repo inp) (issue_number inp) b"

subsection \<open>Lines 56 to 69: the existence check\<close>

definition verify :: "api \<Rightarrow> inputs \<Rightarrow> unit run" where
  "verify api inp =
     andThen (emit (GetRepo (org inp) (queryRepo inp))) (\<lambda>_.
       case repos_get api (org inp) (queryRepo inp) of
         Inr u \<Rightarrow> ([], Inr ())
       | Inl e \<Rightarrow>
           if status e = 404
           then andThen (comment api inp (repoNotFound_body inp)) (\<lambda>_. stop Returned)
           else andThen (comment api inp (verification_body inp (message e))) (\<lambda>_.
                  emit (SetFailed (message e))))"

subsection \<open>Lines 71 to 85: the direct admins\<close>

definition direct_admins :: "collaborator list \<Rightarrow> string list" where
  "direct_admins members = map login (filter permissions_admin members)"

text \<open>
  After the \<open>catch\<close> of line 80 \<open>members\<close> is still \<open>undefined\<close>, and line 85 throws.
\<close>

definition listDirect :: "api \<Rightarrow> inputs \<Rightarrow> string list run" where
  "listDirect api inp =
     andThen (emit (ListCollaborators (org inp) (queryRepo inp))) (\<lambda>_.
       case repos_listCollaborators api (org inp) (queryRepo inp) of
         Inr members \<Rightarrow> ([], Inr (direct_admins members))
       | Inl e \<Rightarrow>
           andThen (comment api inp (collaborators_body inp (message e))) (\<lambda>_.
           andThen (emit (SetFailed (message e))) (\<lambda>_.
             stop (Threw (TypeError ''members'')))))"

subsection \<open>Lines 87 to 99: the admin teams\<close>

definition admin_teams :: "team list \<Rightarrow> team list" where
  "admin_teams teams = filter (\<lambda>t. permission t = ''admin'') teams"

definition listAdminTeams :: "api \<Rightarrow> inputs \<Rightarrow> team list run" where
  "listAdminTeams api inp =
     andThen (emit (ListTeams (org inp) (queryRepo inp))) (\<lambda>_.
       case repos_listTeams api (org inp) (queryRepo inp) of
         Inr teams \<Rightarrow> ([], Inr (admin_teams teams))
       | Inl e \<Rightarrow>
           andThen (comment api inp (teams_body inp (message e))) (\<lambda>_.
           andThen (emit (SetFailed (message e))) (\<lambda>_.
             stop (Threw (TypeError ''teams'')))))"

subsection \<open>Lines 100 to 117: the members of the admin teams\<close>

text \<open>Lines 108 to 112: \<open>admins.push\<close> unless \<open>admins.includes\<close>.\<close>

fun add_members :: "string list \<Rightarrow> org_member list \<Rightarrow> string list" where
  "add_members admins [] = admins"
| "add_members admins (m # ms) =
     add_members (if member_login m \<in> set admins then admins
                  else admins @ [member_login m]) ms"

fun expand :: "api \<Rightarrow> inputs \<Rightarrow> string list \<Rightarrow> team list \<Rightarrow> string list run" where
  "expand api inp admins [] = ([], Inr admins)"
| "expand api inp admins (t # ts) =
     andThen (emit (ListMembersInOrg (org inp) (slug t))) (\<lambda>_.
       case teams_listMembersInOrg api (org inp) (slug t) of
         Inr members \<Rightarrow> expand api inp (add_members admins members) ts
       | Inl e \<Rightarrow>
           andThen (comment api inp (members_body inp (name t) (message e))) (\<lambda>_.
           andThen (emit (SetFailed (message e))) (\<lambda>_.
             expand api inp admins ts)))"

text \<open>Lines 56 to 117 together: the admin list that reaches line 119, if any does.\<close>

definition resolve :: "api \<Rightarrow> inputs \<Rightarrow> string list run" where
  "resolve api inp =
     andThen (verify api inp) (\<lambda>_.
     andThen (listDirect api inp) (\<lambda>admins.
     andThen (listAdminTeams api inp) (\<lambda>adminTeams.
       expand api inp admins adminTeams)))"

subsection \<open>Lines 119 to 132: the report\<close>

text \<open>Lines 124 to 130: \<open>users.getByUsername\<close> stands outside every \<open>try\<close>.\<close>

fun collect_emails :: "api \<Rightarrow> string \<Rightarrow> string list \<Rightarrow> string run" where
  "collect_emails api b [] = ([], Inr b)"
| "collect_emails api b (admin # admins) =
     andThen (emit (GetByUsername admin)) (\<lambda>_.
       case users_getByUsername api admin of
         Inl e \<Rightarrow> stop (Threw (RequestError e))
       | Inr u \<Rightarrow> collect_emails api (b @ email_line u) admins)"

definition report :: "api \<Rightarrow> inputs \<Rightarrow> string list \<Rightarrow> unit run" where
  "report api inp admins =
     (if length admins = 0
      then andThen (comment api inp (noAdmins_body inp)) (\<lambda>_.
             emit (SetFailed (noAdmins_message inp)))
      else andThen (collect_emails api (success_header inp) admins) (\<lambda>b.
             comment api inp b))"

subsection \<open>Lines 134 to 141: closing the issue\<close>

definition close :: "api \<Rightarrow> inputs \<Rightarrow> unit run" where
  "close api inp =
     (if closeIssue inp
      then andThen (emit (UpdateIssue (issue_org inp) (repo inp) (issue_number inp))) (\<lambda>_.
             case issues_update api (issue_org inp) (repo inp) (issue_number inp) of
               Inl e \<Rightarrow> stop (Threw (RequestError e))
             | Inr u \<Rightarrow> ([], Inr ()))
      else ([], Inr ()))"

subsection \<open>Lines 41 to 142: \<open>main\<close>\<close>

definition main :: "api \<Rightarrow> inputs \<Rightarrow> event list \<times> completion" where
  "main api inp =
     finish (andThen (resolve api inp) (\<lambda>admins.
             andThen (report api inp admins) (\<lambda>_.
               close api inp)))"

section \<open>Vocabulary of the properties\<close>

text \<open>
  The comment endpoint answers every request. A rejected \<open>createComment\<close> is caught
  nowhere in \<open>main\<close>: it ends the run.
\<close>

definition comments_ok :: "api \<Rightarrow> bool" where
  "comments_ok api \<longleftrightarrow> (\<forall>ow rp n b. issues_createComment api ow rp n b = Inr ())"

text \<open>The existence check of line 58 rejects with status 404.\<close>

definition repo_missing :: "api \<Rightarrow> inputs \<Rightarrow> bool" where
  "repo_missing api inp \<longleftrightarrow>
     (case repos_get api (org inp) (queryRepo inp) of
        Inl e \<Rightarrow> status e = 404
      | Inr u \<Rightarrow> False)"

fun is_comment :: "event \<Rightarrow> bool" where
  "is_comment (CreateComment ow rp n b) = True"
| "is_comment ev = False"

fun is_close :: "event \<Rightarrow> bool" where
  "is_close (UpdateIssue ow rp n) = True"
| "is_close ev = False"


fun is_SetFailed :: "event \<Rightarrow> bool" where
  "is_SetFailed (SetFailed m) = True"
| "is_SetFailed ev = False"

text \<open>A comment whose body starts with \<open>@actor\<close>.\<close>

fun mentions_actor :: "inputs \<Rightarrow> event \<Rightarrow> bool" where
  "mentions_actor inp (CreateComment ow rp n b) = prefix (''@'' @ actor inp) b"
| "mentions_actor inp ev = True"

text \<open>
  A comment whose body starts with the sentence of line 123 and not with \<open>@actor\<close>.
\<close>

fun success_comment :: "inputs \<Rightarrow> event \<Rightarrow> bool" where
  "success_comment inp (CreateComment ow rp n b) =
     (prefix ''The following users have been identified as having `administrator` access to '' b \<and>
      \<not> prefix (''@'' @ actor inp) b)"
| "success_comment inp ev = True"

text \<open>
  The target of each request: the three repository requests go to \<open>org\<close> and
  \<open>queryRepo\<close>, the member listings to \<open>org\<close>, the comments and the closing update to
  \<open>issue_org\<close>, \<open>repo\<close> and \<open>issue_number\<close>.
\<close>

fun expected :: "inputs \<Rightarrow> event \<Rightarrow> bool" where
  "expected inp (GetRepo ow rp) = (ow = org inp \<and> rp = queryRepo inp)"
| "expected inp (ListCollaborators ow rp) = (ow = org inp \<and> rp = queryRepo inp)"
| "expected inp (ListTeams ow rp) = (ow = org inp \<and> rp = queryRepo inp)"
| "expected inp (ListMembersInOrg og sl) = (og = org inp)"
| "expected inp (GetByUsername u) = True"
| "expected inp (CreateComment ow rp n b) =
     (ow = issue_org inp \<and> rp = repo inp \<and> n = issue_number inp)"
| "expected inp (SetFailed m) = True"
| "expected inp (UpdateIssue ow rp n) =
     (ow = issue_org inp \<and> rp = repo inp \<and> n = issue_number inp)"

text \<open>
  Every comment that does not start with the sentence of line 123 has \<open>core.setFailed\<close>
  as the next event.
\<close>

fun failures_marked :: "inputs \<Rightarrow> event list \<Rightarrow> bool" where
  "failures_marked inp [] = True"
| "failures_marked inp (CreateComment ow rp n b # es) =
     ((prefix (success_header inp) b \<or>
       (case es of SetFailed m # es' \<Rightarrow> True | _ \<Rightarrow> False))
      \<and> failures_marked inp es)"
| "failures_marked inp (ev # es) = failures_marked inp es"

text \<open>Each element once, at the place of its first occurrence.\<close>

fun first_occurrences :: "'a list \<Rightarrow> 'a list" where
  "first_occurrences [] = []"
| "first_occurrences (x # xs) = x # first_occurrences (removeAll x xs)"

text \<open>
  The members that the teams of a list grant, in the order of the list and, within a
  team, of its member listing; a team whose listing is rejected grants none.
\<close>

definition granted :: "api \<Rightarrow> inputs \<Rightarrow> team list \<Rightarrow> org_member list" where
  "granted api inp ts =
     concat (map (\<lambda>t. case teams_listMembersInOrg api (org inp) (slug t) of
                         Inl e \<Rightarrow> []
                       | Inr members \<Rightarrow> members) ts)"



text \<open>
  The last white-space-separated token of the trimmed body, in the words of the
  specification: the longest suffix of the trimmed body without a white-space character.
  It is compared with \<open>queryRepo\<close> below.
\<close>

definition last_ws_token :: "string \<Rightarrow> string" where
  "last_ws_token s = rev (takeWhile (\<lambda>c. \<not> is_white_space c) (rev (trim s)))"

section \<open>Example remotes\<close>

definition demo_inputs :: inputs where
  "demo_inputs =
     \<lparr>actor = ''octocat'', body = ''/admins widgets'', close_issue = ''true'',
      issue_number = ''7'', issue_org = ''acme-ops'', org = ''acme'', repo = ''requests''\<rparr>"

definition multiline_inputs :: inputs where
  "multiline_inputs = demo_inputs\<lparr>body := ''/admins\<newline>widgets''\<rparr>"

definition not_found :: api_error where
  "not_found = \<lparr>status = 404, message = ''Not Found''\<rparr>"

definition server_error :: api_error where
  "server_error = \<lparr>status = 500, message = ''Server Error''\<rparr>"

definition ops_team :: team where
  "ops_team = \<lparr>name = ''Ops'', slug = ''ops'', permission = ''admin''\<rparr>"

definition docs_team :: team where
  "docs_team = \<lparr>name = ''Docs'', slug = ''docs'', permission = ''pull''\<rparr>"

definition core_team :: team where
  "core_team = \<lparr>name = ''Core'', slug = ''core'', permission = ''admin''\<rparr>"

text \<open>
  \<open>acme/widgets\<close> exists; \<open>alice\<close> is a direct admin, \<open>bob\<close> a direct collaborator
  without admin permission; no team has access.
\<close>

definition small_api :: api where
  "small_api =
     \<lparr>repos_get = (\<lambda>ow rp. if ow = ''acme'' \<and> rp = ''widgets'' then Inr () else Inl not_found),
      repos_listCollaborators = (\<lambda>ow rp.
        Inr [\<lparr>login = ''alice'', permissions_admin = True\<rparr>,
             \<lparr>login = ''bob'', permissions_admin = False\<rparr>]),
      repos_listTeams = (\<lambda>ow rp. Inr []),
      teams_listMembersInOrg = (\<lambda>og sl. Inr []),
      users_getByUsername = (\<lambda>u.
        if u = ''alice'' then Inr \<lparr>email = Some ''alice@example.com''\<rparr>
        else Inr \<lparr>email = None\<rparr>),
      issues_createComment = (\<lambda>ow rp n b. Inr ()),
      issues_update = (\<lambda>ow rp n. Inr ())\<rparr>"

text \<open>
  Three teams have access, \<open>Ops\<close> and \<open>Core\<close> as admins. The members of \<open>Core\<close> are
  \<open>alice\<close> and \<open>carol\<close>; every other member listing is rejected.
\<close>

definition demo_api :: api where
  "demo_api =
     small_api
      \<lparr>repos_listTeams := (\<lambda>ow rp. Inr [ops_team, docs_team, core_team]),
       teams_listMembersInOrg := (\<lambda>og sl.
         if sl = ''core'' then Inr [\<lparr>member_login = ''alice''\<rparr>, \<lparr>member_login = ''carol''\<rparr>]
         else Inl \<lparr>status = 502, message = ''Bad Gateway''\<rparr>)\<rparr>"

definition missing_api :: api where
  "missing_api = small_api\<lparr>repos_get := (\<lambda>ow rp. Inl not_found)\<rparr>"

definition unverified_api :: api where
  "unverified_api = small_api\<lparr>repos_get := (\<lambda>ow rp. Inl server_error)\<rparr>"

definition no_profile_api :: api where
  "no_profile_api = small_api\<lparr>users_getByUsername := (\<lambda>u. Inl server_error)\<rparr>"

definition twice_api :: api where
  "twice_api =
     small_api\<lparr>repos_listCollaborators := (\<lambda>ow rp.
       Inr [\<lparr>login = ''alice'', permissions_admin = True\<rparr>,
            \<lparr>login = ''alice'', permissions_admin = True\<rparr>])\<rparr>"

definition empty_api :: api where
  "empty_api = small_api\<lparr>repos_listCollaborators := (\<lambda>ow rp. Inr [])\<rparr>"

text \<open>The collaborator listing, or the team listing, is rejected.\<close>

definition no_collaborators_api :: api where
  "no_collaborators_api = small_api\<lparr>repos_listCollaborators := (\<lambda>ow rp. Inl server_error)\<rparr>"

definition no_teams_api :: api where
  "no_teams_api = small_api\<lparr>repos_listTeams := (\<lambda>ow rp. Inl server_error)\<rparr>"

text \<open>The comment endpoint rejects every request.\<close>

definition mute_api :: api where
  "mute_api = demo_api\<lparr>issues_createComment := (\<lambda>ow rp n b. Inl server_error)\<rparr>"

definition mute_empty_api :: api where
  "mute_empty_api = empty_api\<lparr>issues_createComment := (\<lambda>ow rp n b. Inl server_error)\<rparr>"

text \<open>
  \<open>zed\<close> and \<open>alice\<close> are direct admins, \<open>zed\<close> in no team. \<open>Ops\<close> grants \<open>dave\<close>
  and \<open>alice\<close>, \<open>Core\<close> grants \<open>carol\<close>, \<open>alice\<close> and \<open>dave\<close>; \<open>Docs\<close>, without
  admin permission, has the member \<open>erin\<close>. \<open>dave\<close> has no public email.
\<close>

definition order_api :: api where
  "order_api =
     small_api
      \<lparr>repos_listCollaborators := (\<lambda>ow rp.
         Inr [\<lparr>login = ''zed'', permissions_admin = True\<rparr>,
              \<lparr>login = ''bob'', permissions_admin = False\<rparr>,
              \<lparr>login = ''alice'', permissions_admin = True\<rparr>]),
       repos_listTeams := (\<lambda>ow rp. Inr [ops_team, docs_team, core_team]),
       teams_listMembersInOrg := (\<lambda>og sl.
         if sl = ''ops'' then Inr [\<lparr>member_login = ''dave''\<rparr>, \<lparr>member_login = ''alice''\<rparr>]
         else if sl = ''docs'' then Inr [\<lparr>member_login = ''erin''\<rparr>]
         else Inr [\<lparr>member_login = ''carol''\<rparr>, \<lparr>member_login = ''alice''\<rparr>,
                   \<lparr>member_login = ''dave''\<rparr>]),
       users_getByUsername := (\<lambda>u.
         if u = ''dave'' then Inr \<lparr>email = None\<rparr>
         else Inr \<lparr>email = Some (u @ ''@example.com'')\<rparr>)\<rparr>"


section \<open>Basic facts\<close>

lemmas run_defs = main_def resolve_def verify_def listDirect_def listAdminTeams_def report_def
  close_def closeIssue_def finish_def comment_def sendComment_def emit_def stop_def
  direct_admins_def admin_teams_def queryRepo_def trim_def is_white_space_def
  repoNotFound_body_def verification_body_def collaborators_body_def teams_body_def
  members_body_def noAdmins_body_def noAdmins_message_def success_header_def email_line_def

lemmas data_defs = demo_inputs_def small_api_def demo_api_def not_found_def server_error_def
  ops_team_def docs_team_def core_team_def missing_api_def unverified_api_def
  no_profile_api_def twice_api_def empty_api_def multiline_inputs_def
  no_collaborators_api_def no_teams_api_def mute_api_def mute_empty_api_def order_api_def

lemma andThen_Inl [simp]: "andThen (tr, Inl c) f = (tr, Inl c)"
  by (simp add: andThen_def)

lemma andThen_Inr [simp]: "andThen (tr, Inr x) f = (tr @ fst (f x), snd (f x))"
  by (simp add: andThen_def)

lemma andThen_emit [simp]: "andThen (emit ev) f = (ev # fst (f ()), snd (f ()))"
  by (simp add: emit_def)

lemma fst_andThen:
  "fst (andThen m f) = fst m @ (case snd m of Inl c \<Rightarrow> [] | Inr x \<Rightarrow> fst (f x))"
  by (simp add: andThen_def split: sum.splits)

lemma list_all_andThen:
  "list_all P (fst m) \<Longrightarrow> (\<And>x. list_all P (fst (f x))) \<Longrightarrow> list_all P (fst (andThen m f))"
  by (simp add: fst_andThen split: sum.splits)

lemma fst_comment [simp]:
  "fst (comment api inp b) = [CreateComment (issue_org inp) (repo inp) (issue_number inp) b]"
  by (simp add: comment_def sendComment_def)

lemma comment_ok:
  "comments_ok api \<Longrightarrow>
   comment api inp b = ([CreateComment (issue_org inp) (repo inp) (issue_number inp) b], Inr ())"
  by (simp add: comment_def sendComment_def comments_ok_def)

lemma not_prefix_success_header [simp]:
  "\<not> prefix (success_header inp) (repoNotFound_body inp)"
  "\<not> prefix (success_header inp) (verification_body inp msg)"
  "\<not> prefix (success_header inp) (collaborators_body inp msg)"
  "\<not> prefix (success_header inp) (teams_body inp msg)"
  "\<not> prefix (success_header inp) (members_body inp nm msg)"
  "\<not> prefix (success_header inp) (noAdmins_body inp)"
  by (simp_all add: success_header_def repoNotFound_body_def verification_body_def
      collaborators_body_def teams_body_def members_body_def noAdmins_body_def)

lemma collect_emails_prefix:
  "snd (collect_emails api b admins) = Inr b' \<Longrightarrow> prefix b b'"
proof (induction admins arbitrary: b)
  case Nil
  then show ?case by simp
next
  case (Cons a admins)
  show ?case
  proof (cases "users_getByUsername api a")
    case (Inl e)
    with Cons.prems show ?thesis by (simp add: stop_def)
  next
    case (Inr u)
    with Cons.prems have "snd (collect_emails api (b @ email_line u) admins) = Inr b'" by simp
    then have "prefix (b @ email_line u) b'" by (rule Cons.IH)
    then show ?thesis by (rule append_prefixD)
  qed
qed


lemma fst_close:
  "fst (close api inp) =
     (if closeIssue inp then [UpdateIssue (issue_org inp) (repo inp) (issue_number inp)] else [])"
  by (simp add: close_def stop_def split: sum.splits)

lemma main_after_resolve:
  "resolve api inp = (tr, Inr admins) \<Longrightarrow>
   fst (main api inp) =
     tr @ fst (report api inp admins) @
       (case snd (report api inp admins) of Inl c \<Rightarrow> [] | Inr u \<Rightarrow> fst (close api inp))"
  by (simp add: main_def finish_def fst_andThen)


lemma report_empty:
  "comments_ok api \<Longrightarrow>
   report api inp [] =
     ([CreateComment (issue_org inp) (repo inp) (issue_number inp) (noAdmins_body inp),
       SetFailed (noAdmins_message inp)],
      Inr ())"
  by (simp add: report_def comment_ok emit_def)

lemma sublist_in_append: "sublist xs ys \<Longrightarrow> sublist xs (ps @ ys @ ss)"
  unfolding sublist_def by (metis append.assoc)

lemma verify_rejected:
  "comments_ok api \<Longrightarrow> repos_get api (org inp) (queryRepo inp) = Inl e \<Longrightarrow> status e \<noteq> 404 \<Longrightarrow>
   verify api inp =
     ([GetRepo (org inp) (queryRepo inp),
       CreateComment (issue_org inp) (repo inp) (issue_number inp)
         (verification_body inp (message e)),
       SetFailed (message e)],
      Inr ())"
  by (simp add: verify_def comment_ok emit_def)

lemma verify_present:
  "comments_ok api \<Longrightarrow> \<not> repo_missing api inp \<Longrightarrow> snd (verify api inp) = Inr ()"
  by (auto simp add: verify_def repo_missing_def comment_ok emit_def split: sum.splits)

lemma prefix_verify_main: "prefix (fst (verify api inp)) (fst (main api inp))"
  by (simp add: main_def resolve_def finish_def fst_andThen)

lemma main_collaborators_rejected:
  assumes "comments_ok api" and "\<not> repo_missing api inp"
    and "repos_listCollaborators api (org inp) (queryRepo inp) = Inl e"
  shows "main api inp =
     (fst (verify api inp) @
      [ListCollaborators (org inp) (queryRepo inp),
       CreateComment (issue_org inp) (repo inp) (issue_number inp)
         (collaborators_body inp (message e)),
       SetFailed (message e)],
      Threw (TypeError ''members''))"
  using verify_present [OF assms(1,2)] assms(1,3)
  by (simp add: main_def resolve_def finish_def andThen_def listDirect_def comment_ok emit_def
      stop_def)

lemma main_teams_rejected:
  assumes "comments_ok api" and "\<not> repo_missing api inp"
    and "repos_listCollaborators api (org inp) (queryRepo inp) = Inr members"
    and "repos_listTeams api (org inp) (queryRepo inp) = Inl e"
  shows "main api inp =
     (fst (verify api inp) @
      [ListCollaborators (org inp) (queryRepo inp), ListTeams (org inp) (queryRepo inp),
       CreateComment (issue_org inp) (repo inp) (issue_number inp)
         (teams_body inp (message e)),
       SetFailed (message e)],
      Threw (TypeError ''teams''))"
  using verify_present [OF assms(1,2)] assms(1,3,4)
  by (simp add: main_def resolve_def finish_def andThen_def listDirect_def listAdminTeams_def
      comment_ok emit_def stop_def)

lemma resolve_listed:
  assumes "comments_ok api" and "\<not> repo_missing api inp"
    and "repos_listCollaborators api (org inp) (queryRepo inp) = Inr members"
    and "repos_listTeams api (org inp) (queryRepo inp) = Inr teams"
  shows "resolve api inp =
     (fst (verify api inp) @
      [ListCollaborators (org inp) (queryRepo inp), ListTeams (org inp) (queryRepo inp)] @
      fst (expand api inp (direct_admins members) (admin_teams teams)),
      snd (expand api inp (direct_admins members) (admin_teams teams)))"
  using verify_present [OF assms(1,2)] assms(3,4)
  by (simp add: resolve_def andThen_def listDirect_def listAdminTeams_def emit_def)

lemma fst_main_resolve:
  "fst (main api inp) =
     fst (resolve api inp) @
     (case snd (resolve api inp) of
        Inl c \<Rightarrow> []
      | Inr admins \<Rightarrow>
          fst (report api inp admins) @
          (case snd (report api inp admins) of Inl c \<Rightarrow> [] | Inr u \<Rightarrow> fst (close api inp)))"
  by (simp add: main_def finish_def fst_andThen split: sum.splits)


subsection \<open>The example runs\<close>

lemma queryRepo_demo: "queryRepo demo_inputs = ''widgets''"
  by (simp add: queryRepo_def demo_inputs_def trim_def is_white_space_def)

lemma comments_ok_demo: "comments_ok demo_api"
  by (simp add: comments_ok_def small_api_def demo_api_def)

lemma resolve_demo:
  "resolve demo_api demo_inputs =
     ([GetRepo ''acme'' ''widgets'', ListCollaborators ''acme'' ''widgets'',
       ListTeams ''acme'' ''widgets'', ListMembersInOrg ''acme'' ''ops'',
       CreateComment ''acme-ops'' ''requests'' ''7''
         ''@octocat\<newline>\<newline>There was an error retrieving the members for Ops:\<newline>\<newline>Bad Gateway'',
       SetFailed ''Bad Gateway'', ListMembersInOrg ''acme'' ''core''],
      Inr [''alice'', ''carol''])"
  by (simp add: run_defs data_defs)

lemma main_demo:
  "main demo_api demo_inputs =
     ([GetRepo ''acme'' ''widgets'', ListCollaborators ''acme'' ''widgets'',
       ListTeams ''acme'' ''widgets'', ListMembersInOrg ''acme'' ''ops'',
       CreateComment ''acme-ops'' ''requests'' ''7''
         ''@octocat\<newline>\<newline>There was an error retrieving the members for Ops:\<newline>\<newline>Bad Gateway'',
       SetFailed ''Bad Gateway'', ListMembersInOrg ''acme'' ''core'',
       GetByUsername ''alice'', GetByUsername ''carol'',
       CreateComment ''acme-ops'' ''requests'' ''7''
         (success_header demo_inputs @ ''- alice@example.com\<newline>- null\<newline>''),
       UpdateIssue ''acme-ops'' ''requests'' ''7''],
      Returned)"
  by (simp add: run_defs data_defs)

lemma resolve_empty_demo:
  "resolve empty_api demo_inputs =
     ([GetRepo ''acme'' ''widgets'', ListCollaborators ''acme'' ''widgets'',
       ListTeams ''acme'' ''widgets''],
      Inr [])"
  by (simp add: run_defs data_defs)


section \<open>The failed status\<close>

lemma failures_marked_append:
  "failures_marked inp xs \<Longrightarrow> failures_marked inp ys \<Longrightarrow> failures_marked inp (xs @ ys)"
  by (induction inp xs rule: failures_marked.induct)
     (auto split: list.splits event.splits)

lemma failures_marked_andThen:
  "failures_marked inp (fst m) \<Longrightarrow> (\<And>x. failures_marked inp (fst (f x))) \<Longrightarrow>
   failures_marked inp (fst (andThen m f))"
  by (simp add: fst_andThen failures_marked_append split: sum.splits)

lemma verify_marked:
  "comments_ok api \<Longrightarrow> \<not> repo_missing api inp \<Longrightarrow> failures_marked inp (fst (verify api inp))"
  by (auto simp add: verify_def repo_missing_def comment_ok stop_def emit_def split: sum.splits)

lemma listDirect_marked: "comments_ok api \<Longrightarrow> failures_marked inp (fst (listDirect api inp))"
  by (simp add: listDirect_def comment_ok stop_def emit_def split: sum.splits)

lemma listAdminTeams_marked:
  "comments_ok api \<Longrightarrow> failures_marked inp (fst (listAdminTeams api inp))"
  by (simp add: listAdminTeams_def comment_ok stop_def emit_def split: sum.splits)

lemma expand_marked:
  "comments_ok api \<Longrightarrow> failures_marked inp (fst (expand api inp admins ts))"
  by (induction ts arbitrary: admins) (simp_all add: comment_ok emit_def split: sum.splits)

lemma resolve_marked:
  "comments_ok api \<Longrightarrow> \<not> repo_missing api inp \<Longrightarrow> failures_marked inp (fst (resolve api inp))"
  unfolding resolve_def
  by (intro failures_marked_andThen verify_marked listDirect_marked listAdminTeams_marked
      expand_marked)

lemma collect_emails_marked: "failures_marked inp (fst (collect_emails api b admins))"
  by (induction admins arbitrary: b) (simp_all add: stop_def split: sum.splits)

lemma report_marked: "comments_ok api \<Longrightarrow> failures_marked inp (fst (report api inp admins))"
  by (auto simp add: report_def comment_ok fst_andThen emit_def collect_emails_marked
      failures_marked_append split: sum.splits dest: collect_emails_prefix)

lemma close_marked: "failures_marked inp (fst (close api inp))"
  by (simp add: close_def stop_def split: sum.splits)

lemma main_marked:
  "comments_ok api \<Longrightarrow> \<not> repo_missing api inp \<Longrightarrow> failures_marked inp (fst (main api inp))"
  unfolding main_def finish_def fst_conv
  by (intro failures_marked_andThen resolve_marked report_marked close_marked)

lemma verify_missing:
  "comments_ok api \<Longrightarrow> repo_missing api inp \<Longrightarrow>
   verify api inp =
     ([GetRepo (org inp) (queryRepo inp),
       CreateComment (issue_org inp) (repo inp) (issue_number inp) (repoNotFound_body inp)],
      Inl Returned)"
  by (simp add: verify_def repo_missing_def comment_ok stop_def split: sum.splits)

lemma main_missing:
  "comments_ok api \<Longrightarrow> repo_missing api inp \<Longrightarrow>
   main api inp =
     ([GetRepo (org inp) (queryRepo inp),
       CreateComment (issue_org inp) (repo inp) (issue_number inp) (repoNotFound_body inp)],
      Returned)"
  by (simp add: main_def resolve_def verify_missing finish_def)

lemma expand_failure_sublist:
  "comments_ok api \<Longrightarrow> T \<in> set ts \<Longrightarrow>
   teams_listMembersInOrg api (org inp) (slug T) = Inl e \<Longrightarrow>
   sublist [ListMembersInOrg (org inp) (slug T),
            CreateComment (issue_org inp) (repo inp) (issue_number inp)
              (members_body inp (name T) (message e)),
            SetFailed (message e)]
     (fst (expand api inp admins ts))"
proof (induction ts arbitrary: admins)
  case Nil
  then show ?case by simp
next
  case (Cons t ts)
  show ?case
  proof (cases "t = T")
    case True
    with Cons.prems show ?thesis
      by (simp add: comment_ok emit_def sublist_Cons_right)
  next
    case False
    with Cons.prems have T: "T \<in> set ts" by simp
    show ?thesis
    proof (cases "teams_listMembersInOrg api (org inp) (slug t)")
      case (Inr members)
      with Cons.IH [OF Cons.prems(1) T Cons.prems(3), of "add_members admins members"]
      show ?thesis by (simp add: sublist_Cons_right)
    next
      case (Inl e')
      from Cons.IH [OF Cons.prems(1) T Cons.prems(3), of admins]
      have "sublist [ListMembersInOrg (org inp) (slug T),
            CreateComment (issue_org inp) (repo inp) (issue_number inp)
              (members_body inp (name T) (message e)),
            SetFailed (message e)]
         ([ListMembersInOrg (org inp) (slug t),
           CreateComment (issue_org inp) (repo inp) (issue_number inp)
             (members_body inp (name t) (message e')),
           SetFailed (message e')] @ fst (expand api inp admins ts) @ [])"
        by (rule sublist_in_append)
      with Inl Cons.prems(1) show ?thesis
        by (simp add: comment_ok emit_def)
    qed
  qed
qed

lemma main_member_failure:
  assumes "comments_ok api" and "\<not> repo_missing api inp"
    and "repos_listCollaborators api (org inp) (queryRepo inp) = Inr members"
    and "repos_listTeams api (org inp) (queryRepo inp) = Inr teams"
    and "T \<in> set teams" and "permission T = ''admin''"
    and "teams_listMembersInOrg api (org inp) (slug T) = Inl e"
  shows "sublist [ListMembersInOrg (org inp) (slug T),
            CreateComment (issue_org inp) (repo inp) (issue_number inp)
              (members_body inp (name T) (message e)),
            SetFailed (message e)]
     (fst (main api inp))"
proof -
  let ?xs = "[ListMembersInOrg (org inp) (slug T),
            CreateComment (issue_org inp) (repo inp) (issue_number inp)
              (members_body inp (name T) (message e)),
            SetFailed (message e)]"
  from assms(5,6) have "T \<in> set (admin_teams teams)" by (simp add: admin_teams_def)
  with assms(1,7) have "sublist ?xs (fst (expand api inp (direct_admins members) (admin_teams teams)))"
    by (intro expand_failure_sublist)
  then have "sublist ?xs
     ((fst (verify api inp) @
        [ListCollaborators (org inp) (queryRepo inp), ListTeams (org inp) (queryRepo inp)]) @
      fst (expand api inp (direct_admins members) (admin_teams teams)) @
      (case snd (resolve api inp) of
        Inl c \<Rightarrow> []
      | Inr admins \<Rightarrow>
          fst (report api inp admins) @
          (case snd (report api inp admins) of Inl c \<Rightarrow> [] | Inr u \<Rightarrow> fst (close api inp))))"
    by (rule sublist_in_append)
  then show ?thesis
    by (simp add: fst_main_resolve [of api inp] resolve_listed [OF assms(1-4)])
qed

lemma main_no_admins:
  assumes "comments_ok api" and "resolve api inp = (tr, Inr [])"
  shows "sublist [CreateComment (issue_org inp) (repo inp) (issue_number inp) (noAdmins_body inp),
            SetFailed (noAdmins_message inp)]
     (fst (main api inp))"
proof -
  have "fst (main api inp) =
      tr @ [CreateComment (issue_org inp) (repo inp) (issue_number inp) (noAdmins_body inp),
            SetFailed (noAdmins_message inp)] @
      (if closeIssue inp
       then [UpdateIssue (issue_org inp) (repo inp) (issue_number inp)] else [])"
    using main_after_resolve [OF assms(2)] report_empty [OF assms(1), of inp]
    by (simp add: fst_close)
  then show ?thesis by (simp del: append.simps)
qed

text \<open>
  Claim C1, as stated, fails on the not-found path. In the run below the existence check
  is rejected with status 404: the not-found comment is posted, \<open>main\<close> returns at
  line 65, and \<open>core.setFailed\<close> is never called.
\<close>

theorem repoNotFound_not_marked_failed:
  "main missing_api demo_inputs =
     ([GetRepo ''acme'' ''widgets'',
       CreateComment ''acme-ops'' ''requests'' ''7'' (repoNotFound_body demo_inputs)],
      Returned) \<and>
   \<not> list_ex is_SetFailed (fst (main missing_api demo_inputs))"
  by (simp add: run_defs data_defs)

text \<open>
  Claim C1, amended. Let the comment endpoint answer. If the existence check is rejected
  with status 404, the run is the existence check and the not-found comment, and \<open>main\<close>
  returns without \<open>core.setFailed\<close>. For each of the five other failures the comment
  and \<open>core.setFailed\<close> are in the run, one after the other:
  \<^item> the existence check is rejected with another status: the run starts with the check,
    the verification comment and \<open>core.setFailed\<close>;
  \<^item> the collaborator listing is rejected: the run ends with the listing, its comment and
    \<open>core.setFailed\<close>, and then throws at line 85;
  \<^item> the team listing is rejected: the run ends with the listing, its comment and
    \<open>core.setFailed\<close>, and then throws at line 99;
  \<^item> the member listing of an admin team \<open>T\<close> is rejected: the run holds the listing, the
    comment naming \<open>T\<close> and \<open>core.setFailed\<close> in a row;
  \<^item> the admin list that reaches line 119 is empty: the run holds the no-admins comment
    and \<open>core.setFailed\<close> in a row.

  Moreover, unless the existence check is rejected with status 404, every comment of the
  run whose body does not start with the sentence of the Success comment is followed at
  once by \<open>core.setFailed\<close>, and none of the five failure comments starts with that
  sentence.
\<close>

theorem setFailed_follows_failure_comment:
  assumes "comments_ok api"
  shows "(if repo_missing api inp
          then main api inp =
                 ([GetRepo (org inp) (queryRepo inp),
                   CreateComment (issue_org inp) (repo inp) (issue_number inp)
                     (repoNotFound_body inp)],
                  Returned)
          else failures_marked inp (fst (main api inp))) \<and>
         \<not> prefix (success_header inp) (verification_body inp msg) \<and>
         \<not> prefix (success_header inp) (collaborators_body inp msg) \<and>
         \<not> prefix (success_header inp) (teams_body inp msg) \<and>
         \<not> prefix (success_header inp) (members_body inp team_name msg) \<and>
         \<not> prefix (success_header inp) (noAdmins_body inp) \<and>
         (repos_get api (org inp) (queryRepo inp) = Inl e \<and> status e \<noteq> 404 \<longrightarrow>
            prefix
              [GetRepo (org inp) (queryRepo inp),
               CreateComment (issue_org inp) (repo inp) (issue_number inp)
                 (verification_body inp (message e)),
               SetFailed (message e)]
              (fst (main api inp))) \<and>
         (\<not> repo_missing api inp \<and>
          repos_listCollaborators api (org inp) (queryRepo inp) = Inl e \<longrightarrow>
            suffix
              [ListCollaborators (org inp) (queryRepo inp),
               CreateComment (issue_org inp) (repo inp) (issue_number inp)
                 (collaborators_body inp (message e)),
               SetFailed (message e)]
              (fst (main api inp)) \<and>
            snd (main api inp) = Threw (TypeError ''members'')) \<and>
         (\<not> repo_missing api inp \<and>
          repos_listCollaborators api (org inp) (queryRepo inp) = Inr members \<and>
          repos_listTeams api (org inp) (queryRepo inp) = Inl e \<longrightarrow>
            suffix
              [ListTeams (org inp) (queryRepo inp),
               CreateComment (issue_org inp) (repo inp) (issue_number inp)
                 (teams_body inp (message e)),
               SetFailed (message e)]
              (fst (main api inp)) \<and>
            snd (main api inp) = Threw (TypeError ''teams'')) \<and>
         (\<not> repo_missing api inp \<and>
          repos_listCollaborators api (org inp) (queryRepo inp) = Inr members \<and>
          repos_listTeams api (org inp) (queryRepo inp) = Inr teams \<and>
          T \<in> set teams \<and> permission T = ''admin'' \<and>
          teams_listMembersInOrg api (org inp) (slug T) = Inl e \<longrightarrow>
            sublist
              [ListMembersInOrg (org inp) (slug T),
               CreateComment (issue_org inp) (repo inp) (issue_number inp)
                 (members_body inp (name T) (message e)),
               SetFailed (message e)]
              (fst (main api inp))) \<and>
         (resolve api inp = (tr, Inr []) \<longrightarrow>
            sublist
              [CreateComment (issue_org inp) (repo inp) (issue_number inp) (noAdmins_body inp),
               SetFailed (noAdmins_message inp)]
              (fst (main api inp)))"
proof -
  have verification: "prefix
      [GetRepo (org inp) (queryRepo inp),
       CreateComment (issue_org inp) (repo inp) (issue_number inp)
         (verification_body inp (message e)),
       SetFailed (message e)]
      (fst (main api inp))"
    if "repos_get api (org inp) (queryRepo inp) = Inl e" and "status e \<noteq> 404"
    using prefix_verify_main [of api inp] verify_rejected [OF assms that] by simp
  have collaborators: "suffix
      [ListCollaborators (org inp) (queryRepo inp),
       CreateComment (issue_org inp) (repo inp) (issue_number inp)
         (collaborators_body inp (message e)),
       SetFailed (message e)]
      (fst (main api inp)) \<and>
    snd (main api inp) = Threw (TypeError ''members'')"
    if "\<not> repo_missing api inp"
      and "repos_listCollaborators api (org inp) (queryRepo inp) = Inl e"
    using main_collaborators_rejected [OF assms that] by (simp add: suffix_def)
  have teams: "suffix
      [ListTeams (org inp) (queryRepo inp),
       CreateComment (issue_org inp) (repo inp) (issue_number inp)
         (teams_body inp (message e)),
       SetFailed (message e)]
      (fst (main api inp)) \<and>
    snd (main api inp) = Threw (TypeError ''teams'')"
    if "\<not> repo_missing api inp"
      and "repos_listCollaborators api (org inp) (queryRepo inp) = Inr members"
      and "repos_listTeams api (org inp) (queryRepo inp) = Inl e"
  proof -
    have "fst (verify api inp) @
        [ListCollaborators (org inp) (queryRepo inp), ListTeams (org inp) (queryRepo inp),
         CreateComment (issue_org inp) (repo inp) (issue_number inp)
           (teams_body inp (message e)),
         SetFailed (message e)] =
        (fst (verify api inp) @ [ListCollaborators (org inp) (queryRepo inp)]) @
        [ListTeams (org inp) (queryRepo inp),
         CreateComment (issue_org inp) (repo inp) (issue_number inp)
           (teams_body inp (message e)),
         SetFailed (message e)]"
      by simp
    with main_teams_rejected [OF assms that] show ?thesis
      unfolding suffix_def by (metis fst_conv snd_conv)
  qed
  note members = main_member_failure [OF assms]
  note none = main_no_admins [OF assms]
  from assms verification collaborators teams members none show ?thesis
    by (simp add: main_marked main_missing)
qed

theorem setFailed_follows_failure_comment_witness:
  "comments_ok missing_api \<and> repo_missing missing_api demo_inputs \<and>
   main missing_api demo_inputs =
     ([GetRepo (org demo_inputs) (queryRepo demo_inputs),
       CreateComment (issue_org demo_inputs) (repo demo_inputs) (issue_number demo_inputs)
         (repoNotFound_body demo_inputs)],
      Returned) \<and>
   comments_ok unverified_api \<and>
   repos_get unverified_api ''acme'' ''widgets'' = Inl \<lparr>status = 500, message = ''Server Error''\<rparr> \<and>
   prefix
     [GetRepo ''acme'' ''widgets'',
      CreateComment ''acme-ops'' ''requests'' ''7''
        ''@octocat\<newline>\<newline>There was an error verifying the repository widgets exists:\<newline>\<newline>Server Error'',
      SetFailed ''Server Error'']
     (fst (main unverified_api demo_inputs)) \<and>
   comments_ok no_collaborators_api \<and> \<not> repo_missing no_collaborators_api demo_inputs \<and>
   repos_listCollaborators no_collaborators_api ''acme'' ''widgets'' =
     Inl \<lparr>status = 500, message = ''Server Error''\<rparr> \<and>
   suffix
     [ListCollaborators ''acme'' ''widgets'',
      CreateComment ''acme-ops'' ''requests'' ''7''
        ''@octocat\<newline>\<newline>There was an error retrieving the direct admins for `acme/requests`:\<newline>\<newline>Server Error'',
      SetFailed ''Server Error'']
     (fst (main no_collaborators_api demo_inputs)) \<and>
   snd (main no_collaborators_api demo_inputs) = Threw (TypeError ''members'') \<and>
   comments_ok no_teams_api \<and> \<not> repo_missing no_teams_api demo_inputs \<and>
   repos_listTeams no_teams_api ''acme'' ''widgets'' =
     Inl \<lparr>status = 500, message = ''Server Error''\<rparr> \<and>
   suffix
     [ListTeams ''acme'' ''widgets'',
      CreateComment ''acme-ops'' ''requests'' ''7''
        ''@octocat\<newline>\<newline>There was an error retrieving the teams for `acme/requests`:\<newline>\<newline>Server Error'',
      SetFailed ''Server Error'']
     (fst (main no_teams_api demo_inputs)) \<and>
   snd (main no_teams_api demo_inputs) = Threw (TypeError ''teams'') \<and>
   comments_ok demo_api \<and> \<not> repo_missing demo_api demo_inputs \<and>
   ops_team \<in> set [ops_team, docs_team, core_team] \<and> permission ops_team = ''admin'' \<and>
   teams_listMembersInOrg demo_api ''acme'' ''ops'' =
     Inl \<lparr>status = 502, message = ''Bad Gateway''\<rparr> \<and>
   sublist
     [ListMembersInOrg ''acme'' ''ops'',
      CreateComment ''acme-ops'' ''requests'' ''7''
        ''@octocat\<newline>\<newline>There was an error retrieving the members for Ops:\<newline>\<newline>Bad Gateway'',
      SetFailed ''Bad Gateway'']
     (fst (main demo_api demo_inputs)) \<and>
   failures_marked demo_inputs (fst (main demo_api demo_inputs)) \<and>
   comments_ok empty_api \<and>
   snd (resolve empty_api demo_inputs) = Inr [] \<and>
   sublist
     [CreateComment ''acme-ops'' ''requests'' ''7''
        ''@octocat\<newline>\<newline>There are no admins for widgets'',
      SetFailed ''There are no admins for widgets'']
     (fst (main empty_api demo_inputs))"
proof -
  have inputs: "org demo_inputs = ''acme'' \<and> issue_org demo_inputs = ''acme-ops'' \<and>
      repo demo_inputs = ''requests'' \<and> issue_number demo_inputs = ''7'' \<and>
      actor demo_inputs = ''octocat''"
    by (simp add: demo_inputs_def)
  have ok1: "comments_ok missing_api"
    by (simp add: comments_ok_def missing_api_def small_api_def)
  have missing: "repo_missing missing_api demo_inputs"
    by (simp add: repo_missing_def missing_api_def not_found_def)
  from setFailed_follows_failure_comment [OF ok1, of demo_inputs] missing
  have returned: "main missing_api demo_inputs =
     ([GetRepo (org demo_inputs) (queryRepo demo_inputs),
       CreateComment (issue_org demo_inputs) (repo demo_inputs) (issue_number demo_inputs)
         (repoNotFound_body demo_inputs)],
      Returned)"
    by simp
  have ok2: "comments_ok unverified_api"
    by (simp add: comments_ok_def unverified_api_def small_api_def)
  have get2: "repos_get unverified_api ''acme'' ''widgets'' =
      Inl \<lparr>status = 500, message = ''Server Error''\<rparr>"
    by (simp add: unverified_api_def server_error_def)
  from setFailed_follows_failure_comment [OF ok2, where inp = demo_inputs
      and e = "\<lparr>status = 500, message = ''Server Error''\<rparr>"] get2
  have verification: "prefix
     [GetRepo ''acme'' ''widgets'',
      CreateComment ''acme-ops'' ''requests'' ''7''
        ''@octocat\<newline>\<newline>There was an error verifying the repository widgets exists:\<newline>\<newline>Server Error'',
      SetFailed ''Server Error'']
     (fst (main unverified_api demo_inputs))"
    by (simp add: inputs queryRepo_demo verification_body_def)
  have ok3: "comments_ok no_collaborators_api"
    by (simp add: comments_ok_def no_collaborators_api_def small_api_def)
  have present3: "\<not> repo_missing no_collaborators_api demo_inputs"
    by (simp add: repo_missing_def queryRepo_demo inputs)
       (simp add: no_collaborators_api_def small_api_def)
  have list3: "repos_listCollaborators no_collaborators_api ''acme'' ''widgets'' =
      Inl \<lparr>status = 500, message = ''Server Error''\<rparr>"
    by (simp add: no_collaborators_api_def server_error_def)
  from setFailed_follows_failure_comment [OF ok3, where inp = demo_inputs
      and e = "\<lparr>status = 500, message = ''Server Error''\<rparr>"] present3 list3
  have collaborators: "suffix
     [ListCollaborators ''acme'' ''widgets'',
      CreateComment ''acme-ops'' ''requests'' ''7''
        ''@octocat\<newline>\<newline>There was an error retrieving the direct admins for `acme/requests`:\<newline>\<newline>Server Error'',
      SetFailed ''Server Error'']
     (fst (main no_collaborators_api demo_inputs)) \<and>
   snd (main no_collaborators_api demo_inputs) = Threw (TypeError ''members'')"
    by (simp add: inputs queryRepo_demo collaborators_body_def)
  have ok4: "comments_ok no_teams_api"
    by (simp add: comments_ok_def no_teams_api_def small_api_def)
  have present4: "\<not> repo_missing no_teams_api demo_inputs"
    by (simp add: repo_missing_def queryRepo_demo inputs)
       (simp add: no_teams_api_def small_api_def)
  have list4: "repos_listCollaborators no_teams_api ''acme'' ''widgets'' =
     Inr [\<lparr>login = ''alice'', permissions_admin = True\<rparr>,
          \<lparr>login = ''bob'', permissions_admin = False\<rparr>]"
    by (simp add: no_teams_api_def small_api_def)
  have teams4: "repos_listTeams no_teams_api ''acme'' ''widgets'' =
      Inl \<lparr>status = 500, message = ''Server Error''\<rparr>"
    by (simp add: no_teams_api_def server_error_def)
  from setFailed_follows_failure_comment [OF ok4, where inp = demo_inputs
      and e = "\<lparr>status = 500, message = ''Server Error''\<rparr>"
      and members = "[\<lparr>login = ''alice'', permissions_admin = True\<rparr>,
          \<lparr>login = ''bob'', permissions_admin = False\<rparr>]"] present4 list4 teams4
  have teams: "suffix
     [ListTeams ''acme'' ''widgets'',
      CreateComment ''acme-ops'' ''requests'' ''7''
        ''@octocat\<newline>\<newline>There was an error retrieving the teams for `acme/requests`:\<newline>\<newline>Server Error'',
      SetFailed ''Server Error'']
     (fst (main no_teams_api demo_inputs)) \<and>
   snd (main no_teams_api demo_inputs) = Threw (TypeError ''teams'')"
    by (simp add: inputs queryRepo_demo teams_body_def)
  have ok5: "comments_ok demo_api" by (rule comments_ok_demo)
  have present5: "\<not> repo_missing demo_api demo_inputs"
    by (simp add: repo_missing_def queryRepo_demo inputs)
       (simp add: demo_api_def small_api_def)
  have list5: "repos_listCollaborators demo_api ''acme'' ''widgets'' =
     Inr [\<lparr>login = ''alice'', permissions_admin = True\<rparr>,
          \<lparr>login = ''bob'', permissions_admin = False\<rparr>]"
    by (simp add: demo_api_def small_api_def)
  have teams5: "repos_listTeams demo_api ''acme'' ''widgets'' =
      Inr [ops_team, docs_team, core_team]"
    by (simp add: demo_api_def small_api_def)
  have ops: "ops_team \<in> set [ops_team, docs_team, core_team]" by simp
  have admin: "permission ops_team = ''admin''" by (simp add: ops_team_def)
  have members5: "teams_listMembersInOrg demo_api ''acme'' ''ops'' =
      Inl \<lparr>status = 502, message = ''Bad Gateway''\<rparr>"
    by (simp add: demo_api_def small_api_def)
  have ops_fields: "slug ops_team = ''ops'' \<and> name ops_team = ''Ops''"
    by (simp add: ops_team_def)
  from setFailed_follows_failure_comment [OF ok5, where inp = demo_inputs
      and e = "\<lparr>status = 502, message = ''Bad Gateway''\<rparr>"
      and members = "[\<lparr>login = ''alice'', permissions_admin = True\<rparr>,
          \<lparr>login = ''bob'', permissions_admin = False\<rparr>]"
      and teams = "[ops_team, docs_team, core_team]" and T = ops_team]
    present5 list5 teams5 ops admin members5
  have members: "sublist
     [ListMembersInOrg ''acme'' ''ops'',
      CreateComment ''acme-ops'' ''requests'' ''7''
        ''@octocat\<newline>\<newline>There was an error retrieving the members for Ops:\<newline>\<newline>Bad Gateway'',
      SetFailed ''Bad Gateway'']
     (fst (main demo_api demo_inputs)) \<and>
   failures_marked demo_inputs (fst (main demo_api demo_inputs))"
    by (simp add: inputs queryRepo_demo members_body_def ops_fields)
  have ok6: "comments_ok empty_api"
    by (simp add: comments_ok_def empty_api_def small_api_def)
  have empty: "snd (resolve empty_api demo_inputs) = Inr []"
    by (simp add: resolve_empty_demo)
  from setFailed_follows_failure_comment [OF ok6, where inp = demo_inputs
      and tr = "[GetRepo ''acme'' ''widgets'', ListCollaborators ''acme'' ''widgets'',
       ListTeams ''acme'' ''widgets'']"] resolve_empty_demo
  have none: "sublist
     [CreateComment ''acme-ops'' ''requests'' ''7''
        ''@octocat\<newline>\<newline>There are no admins for widgets'',
      SetFailed ''There are no admins for widgets'']
     (fst (main empty_api demo_inputs))"
    by (simp add: inputs queryRepo_demo noAdmins_body_def noAdmins_message_def)
  from ok1 missing returned ok2 get2 verification ok3 present3 list3 collaborators
    ok4 present4 teams4 teams ok5 present5 ops admin members5 members ok6 empty none
  show ?thesis by (intro conjI) simp_all
qed

section \<open>The mention\<close>

lemma mentions_bodies [simp]:
  "prefix (CHR ''@'' # actor inp) (repoNotFound_body inp)"
  "prefix (CHR ''@'' # actor inp) (verification_body inp msg)"
  "prefix (CHR ''@'' # actor inp) (collaborators_body inp msg)"
  "prefix (CHR ''@'' # actor inp) (teams_body inp msg)"
  "prefix (CHR ''@'' # actor inp) (members_body inp nm msg)"
  "prefix (CHR ''@'' # actor inp) (noAdmins_body inp)"
  by (simp_all add: repoNotFound_body_def verification_body_def
      collaborators_body_def teams_body_def members_body_def noAdmins_body_def)

lemma verify_mentions: "list_all (mentions_actor inp) (fst (verify api inp))"
  by (simp add: verify_def fst_andThen stop_def emit_def split: sum.splits)

lemma listDirect_mentions: "list_all (mentions_actor inp) (fst (listDirect api inp))"
  by (simp add: listDirect_def fst_andThen stop_def emit_def split: sum.splits)

lemma listAdminTeams_mentions: "list_all (mentions_actor inp) (fst (listAdminTeams api inp))"
  by (simp add: listAdminTeams_def fst_andThen stop_def emit_def split: sum.splits)

lemma expand_mentions: "list_all (mentions_actor inp) (fst (expand api inp admins ts))"
  by (induction ts arbitrary: admins) (simp_all add: fst_andThen emit_def split: sum.splits)

lemma resolve_mentions: "list_all (mentions_actor inp) (fst (resolve api inp))"
  unfolding resolve_def
  by (intro list_all_andThen verify_mentions listDirect_mentions listAdminTeams_mentions
      expand_mentions)

lemma close_mentions: "list_all (mentions_actor inp) (fst (close api inp))"
  by (simp add: close_def stop_def split: sum.splits)

lemma report_empty_mentions: "list_all (mentions_actor inp) (fst (report api inp []))"
  by (simp add: report_def fst_andThen emit_def split: sum.splits)

lemma collect_emails_success:
  "list_all (success_comment inp) (fst (collect_emails api b admins))"
  by (induction admins arbitrary: b) (simp_all add: stop_def split: sum.splits)

lemma success_body:
  assumes "prefix (success_header inp) b"
  shows "prefix ''The following users have been identified as having `administrator` access to '' b
    \<and> \<not> prefix (''@'' @ actor inp) b"
proof -
  from assms obtain rest where "b = success_header inp @ rest"
    by (auto simp: prefix_def)
  then show ?thesis by (simp add: success_header_def)
qed

lemma report_success_comment:
  "admins \<noteq> [] \<Longrightarrow> list_all (success_comment inp) (fst (report api inp admins))"
  by (auto simp add: report_def fst_andThen collect_emails_success
      split: sum.splits dest!: collect_emails_prefix success_body)

lemma close_success: "list_all (success_comment inp) (fst (close api inp))"
  by (simp add: close_def stop_def split: sum.splits)

text \<open>
  Claim C2, as stated, fails for the Success comment. In the run below the Success comment
  is posted and its body starts with the sentence of line 123, not with \<open>@octocat\<close>.
\<close>

theorem success_comment_without_mention:
  "CreateComment ''acme-ops'' ''requests'' ''7''
     (success_header demo_inputs @ ''- alice@example.com\<newline>- null\<newline>'')
     \<in> set (fst (main demo_api demo_inputs)) \<and>
   \<not> prefix (''@'' @ actor demo_inputs)
       (success_header demo_inputs @ ''- alice@example.com\<newline>- null\<newline>'') \<and>
   \<not> list_all (mentions_actor demo_inputs) (fst (main demo_api demo_inputs))"
  by (simp add: main_demo) (simp add: success_header_def demo_inputs_def)

text \<open>
  Claim C2, amended. Every comment that is requested up to line 117, that is every comment
  for a repository not found, a verification error, a collaborator lookup error, a team
  lookup error or a team member lookup error, starts with \<open>@actor\<close>. A run that ends
  before line 119 has no other comment. A run that reaches line 119 with an empty admin
  list has only comments that start with \<open>@actor\<close>, the no-admins comment among them. A
  run that reaches line 119 with a non-empty admin list requests from there on only a
  comment that starts with the sentence of line 123 and not with \<open>@actor\<close>: the Success
  comment carries no mention.
\<close>

theorem failure_comments_mention_actor:
  "list_all (mentions_actor inp) (fst (resolve api inp)) \<and>
   prefix (fst (resolve api inp)) (fst (main api inp)) \<and>
   (case snd (resolve api inp) of
      Inl c \<Rightarrow> fst (main api inp) = fst (resolve api inp)
    | Inr admins \<Rightarrow>
        if admins = [] then list_all (mentions_actor inp) (fst (main api inp))
        else list_all (success_comment inp)
               (drop (length (fst (resolve api inp))) (fst (main api inp))))"
proof -
  have pre: "prefix (fst (resolve api inp)) (fst (main api inp))"
    by (simp add: fst_main_resolve)
  have rest: "(case snd (resolve api inp) of
      Inl c \<Rightarrow> fst (main api inp) = fst (resolve api inp)
    | Inr admins \<Rightarrow>
        if admins = [] then list_all (mentions_actor inp) (fst (main api inp))
        else list_all (success_comment inp)
               (drop (length (fst (resolve api inp))) (fst (main api inp))))"
  proof (cases "snd (resolve api inp)")
    case (Inl c)
    then show ?thesis by (simp add: fst_main_resolve)
  next
    case (Inr admins)
    show ?thesis
    proof (cases "admins = []")
      case True
      with Inr show ?thesis
        using resolve_mentions [of inp api] report_empty_mentions [of inp api]
          close_mentions [of inp api]
        by (simp add: fst_main_resolve split: sum.splits)
    next
      case False
      with Inr show ?thesis
        using report_success_comment [OF False, of inp api] close_success [of inp api]
        by (simp add: fst_main_resolve split: sum.splits)
    qed
  qed
  from resolve_mentions pre rest show ?thesis by (intro conjI)
qed

theorem failure_comments_mention_actor_witness:
  "fst (resolve demo_api demo_inputs) =
     [GetRepo ''acme'' ''widgets'', ListCollaborators ''acme'' ''widgets'',
      ListTeams ''acme'' ''widgets'', ListMembersInOrg ''acme'' ''ops'',
      CreateComment ''acme-ops'' ''requests'' ''7''
        ''@octocat\<newline>\<newline>There was an error retrieving the members for Ops:\<newline>\<newline>Bad Gateway'',
      SetFailed ''Bad Gateway'', ListMembersInOrg ''acme'' ''core''] \<and>
   snd (resolve demo_api demo_inputs) = Inr [''alice'', ''carol''] \<and>
   list_all (mentions_actor demo_inputs) (fst (resolve demo_api demo_inputs)) \<and>
   drop 7 (fst (main demo_api demo_inputs)) =
     [GetByUsername ''alice'', GetByUsername ''carol'',
      CreateComment ''acme-ops'' ''requests'' ''7''
        ''The following users have been identified as having `administrator` access to https://github.com/acme/widgets:\<newline>\<newline>- alice@example.com\<newline>- null\<newline>'',
      UpdateIssue ''acme-ops'' ''requests'' ''7''] \<and>
   list_all (success_comment demo_inputs) (drop 7 (fst (main demo_api demo_inputs))) \<and>
   snd (resolve empty_api demo_inputs) = Inr [] \<and>
   fst (main empty_api demo_inputs) =
     [GetRepo ''acme'' ''widgets'', ListCollaborators ''acme'' ''widgets'',
      ListTeams ''acme'' ''widgets'',
      CreateComment ''acme-ops'' ''requests'' ''7''
        ''@octocat\<newline>\<newline>There are no admins for widgets'',
      SetFailed ''There are no admins for widgets'',
      UpdateIssue ''acme-ops'' ''requests'' ''7''] \<and>
   list_all (mentions_actor demo_inputs) (fst (main empty_api demo_inputs)) \<and>
   snd (resolve missing_api demo_inputs) = Inl Returned \<and>
   fst (main missing_api demo_inputs) = fst (resolve missing_api demo_inputs)"
proof -
  have r1: "fst (resolve demo_api demo_inputs) =
     [GetRepo ''acme'' ''widgets'', ListCollaborators ''acme'' ''widgets'',
      ListTeams ''acme'' ''widgets'', ListMembersInOrg ''acme'' ''ops'',
      CreateComment ''acme-ops'' ''requests'' ''7''
        ''@octocat\<newline>\<newline>There was an error retrieving the members for Ops:\<newline>\<newline>Bad Gateway'',
      SetFailed ''Bad Gateway'', ListMembersInOrg ''acme'' ''core'']"
    and s1: "snd (resolve demo_api demo_inputs) = Inr [''alice'', ''carol'']"
    by (simp_all add: resolve_demo)
  have d1: "drop 7 (fst (main demo_api demo_inputs)) =
     [GetByUsername ''alice'', GetByUsername ''carol'',
      CreateComment ''acme-ops'' ''requests'' ''7''
        ''The following users have been identified as having `administrator` access to https://github.com/acme/widgets:\<newline>\<newline>- alice@example.com\<newline>- null\<newline>'',
      UpdateIssue ''acme-ops'' ''requests'' ''7'']"
    by (simp add: main_demo success_header_def queryRepo_demo) (simp add: demo_inputs_def)
  note demo = failure_comments_mention_actor [of demo_inputs demo_api]
  from demo have m1: "list_all (mentions_actor demo_inputs) (fst (resolve demo_api demo_inputs))"
    by (rule conjunct1)
  from demo s1 have "list_all (success_comment demo_inputs)
      (drop (length (fst (resolve demo_api demo_inputs))) (fst (main demo_api demo_inputs)))"
    by simp
  moreover have "length (fst (resolve demo_api demo_inputs)) = 7"
    by (simp add: r1)
  ultimately have c1:
    "list_all (success_comment demo_inputs) (drop 7 (fst (main demo_api demo_inputs)))"
    by (simp only:)
  have s2: "snd (resolve empty_api demo_inputs) = Inr []"
    by (simp add: resolve_empty_demo)
  have t2: "fst (main empty_api demo_inputs) =
     [GetRepo ''acme'' ''widgets'', ListCollaborators ''acme'' ''widgets'',
      ListTeams ''acme'' ''widgets'',
      CreateComment ''acme-ops'' ''requests'' ''7''
        ''@octocat\<newline>\<newline>There are no admins for widgets'',
      SetFailed ''There are no admins for widgets'',
      UpdateIssue ''acme-ops'' ''requests'' ''7'']"
    by (simp add: run_defs data_defs)
  from failure_comments_mention_actor [of demo_inputs empty_api] s2
  have m2: "list_all (mentions_actor demo_inputs) (fst (main empty_api demo_inputs))"
    by simp
  have s3: "snd (resolve missing_api demo_inputs) = Inl Returned"
    by (simp add: run_defs data_defs)
  from failure_comments_mention_actor [of demo_inputs missing_api] s3
  have m3: "fst (main missing_api demo_inputs) = fst (resolve missing_api demo_inputs)"
    by simp
  from r1 s1 m1 d1 c1 s2 t2 m2 s3 m3 show ?thesis by (intro conjI)
qed

section \<open>Failures that are not reported as specified\<close>

text \<open>
  Claim C3 holds on the not-found path (\<open>main_missing\<close>) and fails for every other
  rejection of the existence check: the \<open>catch\<close> of line 62 returns only inside the
  test for status 404, so after the verification comment and \<open>core.setFailed\<close> the run
  goes on. In the run below the existence check is rejected with status 500; the
  collaborators and the teams are listed all the same, a profile is fetched, a second,
  Success comment is posted and the issue is closed.
\<close>

theorem verification_error_does_not_halt:
  "main unverified_api demo_inputs =
     ([GetRepo ''acme'' ''widgets'',
       CreateComment ''acme-ops'' ''requests'' ''7''
         ''@octocat\<newline>\<newline>There was an error verifying the repository widgets exists:\<newline>\<newline>Server Error'',
       SetFailed ''Server Error'',
       ListCollaborators ''acme'' ''widgets'', ListTeams ''acme'' ''widgets'',
       GetByUsername ''alice'',
       CreateComment ''acme-ops'' ''requests'' ''7''
         (success_header demo_inputs @ ''- alice@example.com\<newline>''),
       UpdateIssue ''acme-ops'' ''requests'' ''7''],
      Returned)"
  by (simp add: run_defs data_defs)

text \<open>
  Claim C4 fails where a profile lookup is rejected: \<open>users.getByUsername\<close> (line 126)
  stands outside every \<open>try\<close>. In the run below the one admin is found, her profile
  lookup is rejected, and the rejection leaves \<open>main\<close>: no comment is posted.
\<close>

theorem profile_failure_posts_no_comment:
  "main no_profile_api demo_inputs =
     ([GetRepo ''acme'' ''widgets'', ListCollaborators ''acme'' ''widgets'',
       ListTeams ''acme'' ''widgets'', GetByUsername ''alice''],
      Threw (RequestError \<lparr>status = 500, message = ''Server Error''\<rparr>)) \<and>
   \<not> list_ex is_comment (fst (main no_profile_api demo_inputs))"
  by (simp add: run_defs data_defs)

section \<open>The admin list\<close>

lemma set_first_occurrences [simp]: "set (first_occurrences xs) = set xs"
  by (induction xs rule: first_occurrences.induct) auto

lemma distinct_first_occurrences [simp]: "distinct (first_occurrences xs)"
  by (induction xs rule: first_occurrences.induct) auto

lemma add_members_append:
  "add_members admins (xs @ ys) = add_members (add_members admins xs) ys"
  by (induction xs arbitrary: admins) simp_all


lemma removeAll_filter_fresh:
  "removeAll l [x \<leftarrow> ls. x \<notin> set admins] = [x \<leftarrow> ls. x \<notin> set (admins @ [l])]"
  by (induction ls) auto

lemma add_members_first_occurrences:
  "add_members admins ms =
     admins @ first_occurrences [l \<leftarrow> map member_login ms. l \<notin> set admins]"
proof (induction ms arbitrary: admins)
  case Nil
  show ?case by simp
next
  case (Cons m ms)
  show ?case
  proof (cases "member_login m \<in> set admins")
    case True
    then show ?thesis using Cons.IH [of admins] by simp
  next
    case False
    have "removeAll (member_login m) [l \<leftarrow> map member_login ms. l \<notin> set admins] =
          [l \<leftarrow> map member_login ms. l \<notin> set (admins @ [member_login m])]"
      by (rule removeAll_filter_fresh)
    with False show ?thesis
      using Cons.IH [of "admins @ [member_login m]"] by simp
  qed
qed

text \<open>Whenever the loop of lines 100 to 117 ends, its result is the merge of the listings.\<close>

lemma expand_result:
  "snd (expand api inp admins ts) = Inr admins' \<Longrightarrow>
   admins' = add_members admins (granted api inp ts)"
proof (induction ts arbitrary: admins)
  case Nil
  then show ?case by (simp add: granted_def)
next
  case (Cons t ts)
  show ?case
  proof (cases "teams_listMembersInOrg api (org inp) (slug t)")
    case (Inr members)
    with Cons.prems have "snd (expand api inp (add_members admins members) ts) = Inr admins'"
      by simp
    then have "admins' = add_members (add_members admins members) (granted api inp ts)"
      by (rule Cons.IH)
    with Inr show ?thesis by (simp add: granted_def add_members_append)
  next
    case (Inl e)
    with Cons.prems have "snd (expand api inp admins ts) = Inr admins'"
      by (simp add: andThen_def comment_def sendComment_def emit_def split: sum.splits)
    then have "admins' = add_members admins (granted api inp ts)"
      by (rule Cons.IH)
    with Inl show ?thesis by (simp add: granted_def)
  qed
qed

lemma resolve_Inr:
  assumes "resolve api inp = (tr, Inr admins)"
    and "repos_listCollaborators api (org inp) (queryRepo inp) = Inr members"
    and "repos_listTeams api (org inp) (queryRepo inp) = Inr teams"
  shows "admins = add_members (direct_admins members) (granted api inp (admin_teams teams))"
proof -
  from assms(1) have "snd (resolve api inp) = Inr admins" by simp
  then have "snd (expand api inp (direct_admins members) (admin_teams teams)) = Inr admins"
    using assms(2,3)
    by (simp add: resolve_def andThen_def listDirect_def listAdminTeams_def emit_def
        split: sum.splits)
  then show ?thesis by (rule expand_result)
qed

lemma resolve_Inr_teams:
  assumes "resolve api inp = (tr, Inr admins)"
    and "repos_listCollaborators api (org inp) (queryRepo inp) = Inr members"
  shows "\<exists>teams. repos_listTeams api (org inp) (queryRepo inp) = Inr teams"
proof (cases "repos_listTeams api (org inp) (queryRepo inp)")
  case (Inr teams)
  then show ?thesis by simp
next
  case (Inl e)
  from assms(1) have "snd (resolve api inp) = Inr admins" by simp
  with Inl assms(2) show ?thesis
    by (simp add: resolve_def andThen_def listDirect_def listAdminTeams_def emit_def stop_def
        comment_def sendComment_def split: sum.splits)
qed

text \<open>
  Claim C5, as stated, fails for a collaborator listing that names a login twice: line 85
  filters and maps the listing and removes nothing. In the run below \<open>alice\<close> is listed
  twice and is twice in the admin list that reaches line 119.
\<close>

theorem duplicate_collaborator_kept:
  "snd (resolve twice_api demo_inputs) = Inr [''alice'', ''alice''] \<and>
   \<not> distinct [''alice'', ''alice'']"
  by (simp add: run_defs data_defs)

text \<open>
  Claim C5, amended. The admin list that reaches line 119 is free of duplicates exactly
  when the admin logins of the direct collaborator listing are: team expansion adds a
  login at most once and never one that is already there, however many admin teams grant
  it.
\<close>

theorem admins_distinct_iff:
  assumes "resolve api inp = (tr, Inr admins)"
    and "repos_listCollaborators api (org inp) (queryRepo inp) = Inr members"
  shows "distinct admins \<longleftrightarrow> distinct (direct_admins members)"
proof -
  from assms obtain teams where "repos_listTeams api (org inp) (queryRepo inp) = Inr teams"
    by (auto dest: resolve_Inr_teams)
  with assms have
    "admins = add_members (direct_admins members) (granted api inp (admin_teams teams))"
    by (rule resolve_Inr)
  then show ?thesis
    by (auto simp add: add_members_first_occurrences)
qed

theorem admins_distinct_iff_witness:
  "resolve demo_api demo_inputs =
     ([GetRepo ''acme'' ''widgets'', ListCollaborators ''acme'' ''widgets'',
       ListTeams ''acme'' ''widgets'', ListMembersInOrg ''acme'' ''ops'',
       CreateComment ''acme-ops'' ''requests'' ''7''
         ''@octocat\<newline>\<newline>There was an error retrieving the members for Ops:\<newline>\<newline>Bad Gateway'',
       SetFailed ''Bad Gateway'', ListMembersInOrg ''acme'' ''core''],
      Inr [''alice'', ''carol'']) \<and>
   repos_listCollaborators demo_api (org demo_inputs) (queryRepo demo_inputs) =
     Inr [\<lparr>login = ''alice'', permissions_admin = True\<rparr>,
          \<lparr>login = ''bob'', permissions_admin = False\<rparr>] \<and>
   (distinct [''alice'', ''carol''] \<longleftrightarrow>
    distinct (direct_admins [\<lparr>login = ''alice'', permissions_admin = True\<rparr>,
                             \<lparr>login = ''bob'', permissions_admin = False\<rparr>]))"
proof -
  have c: "repos_listCollaborators demo_api (org demo_inputs) (queryRepo demo_inputs) =
     Inr [\<lparr>login = ''alice'', permissions_admin = True\<rparr>,
          \<lparr>login = ''bob'', permissions_admin = False\<rparr>]"
    by (simp add: demo_api_def small_api_def)
  show ?thesis
    using admins_distinct_iff [OF resolve_demo c] resolve_demo c by simp
qed



section \<open>A team whose members cannot be listed\<close>







section \<open>The empty admin list\<close>





section \<open>Comments come before the closing update\<close>

lemma verify_no_close: "list_all (\<lambda>ev. \<not> is_close ev) (fst (verify api inp))"
  by (simp add: verify_def fst_andThen stop_def emit_def split: sum.splits)

lemma listDirect_no_close: "list_all (\<lambda>ev. \<not> is_close ev) (fst (listDirect api inp))"
  by (simp add: listDirect_def fst_andThen stop_def emit_def split: sum.splits)

lemma listAdminTeams_no_close: "list_all (\<lambda>ev. \<not> is_close ev) (fst (listAdminTeams api inp))"
  by (simp add: listAdminTeams_def fst_andThen stop_def emit_def split: sum.splits)

lemma expand_no_close: "list_all (\<lambda>ev. \<not> is_close ev) (fst (expand api inp admins ts))"
  by (induction ts arbitrary: admins) (simp_all add: fst_andThen emit_def split: sum.splits)

lemma resolve_no_close: "list_all (\<lambda>ev. \<not> is_close ev) (fst (resolve api inp))"
  unfolding resolve_def
  by (intro list_all_andThen verify_no_close listDirect_no_close listAdminTeams_no_close
      expand_no_close)

lemma collect_emails_no_close:
  "list_all (\<lambda>ev. \<not> is_close ev) (fst (collect_emails api b admins))"
  by (induction admins arbitrary: b) (simp_all add: stop_def split: sum.splits)

lemma report_no_close: "list_all (\<lambda>ev. \<not> is_close ev) (fst (report api inp admins))"
  by (simp add: report_def fst_andThen emit_def collect_emails_no_close split: sum.splits)

lemma main_close_last:
  "\<exists>xs. list_all (\<lambda>ev. \<not> is_close ev) xs \<and>
     (fst (main api inp) = xs \<or>
      fst (main api inp) = xs @ [UpdateIssue (issue_org inp) (repo inp) (issue_number inp)])"
proof -
  let ?m = "andThen (resolve api inp) (\<lambda>admins. report api inp admins)"
  have assoc: "fst (main api inp) =
      fst ?m @ (case snd ?m of Inl c \<Rightarrow> [] | Inr u \<Rightarrow> fst (close api inp))"
    by (simp add: main_def finish_def andThen_def split: sum.splits)
  have "list_all (\<lambda>ev. \<not> is_close ev) (fst ?m)"
    by (intro list_all_andThen resolve_no_close report_no_close)
  with assoc show ?thesis
    by (cases "snd ?m"; cases "closeIssue inp") (auto simp: fst_close)
qed

lemma close_is_last:
  assumes "list_all (\<lambda>ev. \<not> is_close ev) xs"
    and "xs @ ys = pre @ c # post" and "is_close c" and "length ys \<le> 1"
  shows "post = [] \<and> pre = xs"
proof (cases post rule: rev_cases)
  case Nil
  with assms show ?thesis
    by (cases ys) (auto simp: list_all_iff)
next
  case (snoc post' x)
  with assms show ?thesis
    by (cases ys) (auto simp: list_all_iff)
qed

text \<open>
  Claim C9. In every run, whatever the remote answers, the update that closes the issue
  is the last event: nothing follows it, so no comment does, and nothing before it is a
  closing update. Every comment of the run is therefore requested before the issue state
  is changed.
\<close>

theorem comments_precede_close:
  assumes "fst (main api inp) = pre @ UpdateIssue ow rp n # post"
  shows "post = [] \<and> list_all (\<lambda>ev. \<not> is_close ev) pre"
proof -
  obtain xs where xs: "list_all (\<lambda>ev. \<not> is_close ev) xs"
    and shape: "fst (main api inp) = xs \<or>
      fst (main api inp) = xs @ [UpdateIssue (issue_org inp) (repo inp) (issue_number inp)]"
    using main_close_last by blast
  from shape show ?thesis
  proof
    assume "fst (main api inp) = xs"
    with assms xs show ?thesis by (auto simp: list_all_iff)
  next
    assume "fst (main api inp) =
      xs @ [UpdateIssue (issue_org inp) (repo inp) (issue_number inp)]"
    with assms have "xs @ [UpdateIssue (issue_org inp) (repo inp) (issue_number inp)] =
      pre @ UpdateIssue ow rp n # post" by simp
    with xs have "post = [] \<and> pre = xs"
      by (rule close_is_last) simp_all
    with xs show ?thesis by simp
  qed
qed

theorem comments_precede_close_witness:
  "fst (main demo_api demo_inputs) =
     [GetRepo ''acme'' ''widgets'', ListCollaborators ''acme'' ''widgets'',
      ListTeams ''acme'' ''widgets'', ListMembersInOrg ''acme'' ''ops'',
      CreateComment ''acme-ops'' ''requests'' ''7''
        ''@octocat\<newline>\<newline>There was an error retrieving the members for Ops:\<newline>\<newline>Bad Gateway'',
      SetFailed ''Bad Gateway'', ListMembersInOrg ''acme'' ''core'',
      GetByUsername ''alice'', GetByUsername ''carol'',
      CreateComment ''acme-ops'' ''requests'' ''7''
        (success_header demo_inputs @ ''- alice@example.com\<newline>- null\<newline>'')] @
     UpdateIssue ''acme-ops'' ''requests'' ''7'' # [] \<and>
   list_all (\<lambda>ev. \<not> is_close ev)
     [GetRepo ''acme'' ''widgets'', ListCollaborators ''acme'' ''widgets'',
      ListTeams ''acme'' ''widgets'', ListMembersInOrg ''acme'' ''ops'',
      CreateComment ''acme-ops'' ''requests'' ''7''
        ''@octocat\<newline>\<newline>There was an error retrieving the members for Ops:\<newline>\<newline>Bad Gateway'',
      SetFailed ''Bad Gateway'', ListMembersInOrg ''acme'' ''core'',
      GetByUsername ''alice'', GetByUsername ''carol'',
      CreateComment ''acme-ops'' ''requests'' ''7''
        (success_header demo_inputs @ ''- alice@example.com\<newline>- null\<newline>'')]"
proof -
  have run: "fst (main demo_api demo_inputs) =
     [GetRepo ''acme'' ''widgets'', ListCollaborators ''acme'' ''widgets'',
      ListTeams ''acme'' ''widgets'', ListMembersInOrg ''acme'' ''ops'',
      CreateComment ''acme-ops'' ''requests'' ''7''
        ''@octocat\<newline>\<newline>There was an error retrieving the members for Ops:\<newline>\<newline>Bad Gateway'',
      SetFailed ''Bad Gateway'', ListMembersInOrg ''acme'' ''core'',
      GetByUsername ''alice'', GetByUsername ''carol'',
      CreateComment ''acme-ops'' ''requests'' ''7''
        (success_header demo_inputs @ ''- alice@example.com\<newline>- null\<newline>'')] @
     UpdateIssue ''acme-ops'' ''requests'' ''7'' # []"
    by (simp add: main_demo)
  from comments_precede_close [OF run] run show ?thesis by blast
qed

section \<open>The queried repository\<close>

lemma verify_expected: "list_all (expected inp) (fst (verify api inp))"
  by (simp add: verify_def fst_andThen stop_def emit_def split: sum.splits)

lemma listDirect_expected: "list_all (expected inp) (fst (listDirect api inp))"
  by (simp add: listDirect_def fst_andThen stop_def emit_def split: sum.splits)

lemma listAdminTeams_expected: "list_all (expected inp) (fst (listAdminTeams api inp))"
  by (simp add: listAdminTeams_def fst_andThen stop_def emit_def split: sum.splits)

lemma expand_expected: "list_all (expected inp) (fst (expand api inp admins ts))"
  by (induction ts arbitrary: admins) (simp_all add: fst_andThen emit_def split: sum.splits)

lemma resolve_expected: "list_all (expected inp) (fst (resolve api inp))"
  unfolding resolve_def
  by (intro list_all_andThen verify_expected listDirect_expected listAdminTeams_expected
      expand_expected)

lemma collect_emails_expected: "list_all (expected inp) (fst (collect_emails api b admins))"
  by (induction admins arbitrary: b) (simp_all add: stop_def split: sum.splits)

lemma report_expected: "list_all (expected inp) (fst (report api inp admins))"
  by (simp add: report_def fst_andThen emit_def collect_emails_expected split: sum.splits)

lemma close_expected: "list_all (expected inp) (fst (close api inp))"
  by (simp add: close_def stop_def split: sum.splits)

lemma main_expected: "list_all (expected inp) (fst (main api inp))"
  unfolding main_def finish_def fst_conv
  by (intro list_all_andThen resolve_expected report_expected close_expected)

lemma split_space_not_Nil [simp]: "split_space s \<noteq> []"
  by (induction s) (simp_all split: list.splits)

lemma split_space_no_space: "CHR '' '' \<notin> set s \<Longrightarrow> split_space s = [s]"
  by (induction s) auto

lemma split_space_append:
  "split_space (xs @ CHR '' '' # ys) = split_space xs @ split_space ys"
proof (induction xs)
  case Nil
  show ?case by simp
next
  case (Cons c xs)
  obtain t ts where "split_space xs = t # ts"
    by (cases "split_space xs") simp_all
  with Cons show ?case by simp
qed

lemma last_split_space:
  "last (split_space s) = rev (takeWhile (\<lambda>c. c \<noteq> CHR '' '') (rev s))"
proof (cases "CHR '' '' \<in> set s")
  case False
  then have "takeWhile (\<lambda>c. c \<noteq> CHR '' '') (rev s) = rev s"
    by (intro takeWhile_eq_all_conv [THEN iffD2]) auto
  with False show ?thesis by (simp add: split_space_no_space del: takeWhile_eq_all_conv)
next
  case True
  then obtain xs ys where s: "s = xs @ CHR '' '' # ys" and ys: "CHR '' '' \<notin> set ys"
    by (auto dest: split_list_last)
  from ys have "takeWhile (\<lambda>c. c \<noteq> CHR '' '') (rev ys @ CHR '' '' # rev xs) = rev ys"
    by (subst takeWhile_append2) auto
  with s ys show ?thesis by (simp add: split_space_append split_space_no_space)
qed

lemma queryRepo_last_ws_token_iff:
  "queryRepo inp = last_ws_token (body inp) \<longleftrightarrow>
   list_all (\<lambda>c. \<not> is_white_space c) (queryRepo inp)"
proof -
  let ?t = "rev (trim (body inp))"
  let ?A = "takeWhile (\<lambda>c. c \<noteq> CHR '' '') ?t"
  let ?B = "takeWhile (\<lambda>c. \<not> is_white_space c) ?t"
  have sp: "is_white_space (CHR '' '')" by (simp add: is_white_space_def)
  have q: "queryRepo inp = rev ?A" by (simp add: queryRepo_def last_split_space)
  have l: "last_ws_token (body inp) = rev ?B" by (simp add: last_ws_token_def)
  have "?A = ?B \<longleftrightarrow> (\<forall>c \<in> set ?A. \<not> is_white_space c)"
  proof
    assume "?A = ?B"
    then have "set ?A = set ?B" by simp
    then show "\<forall>c \<in> set ?A. \<not> is_white_space c"
      by (auto dest: set_takeWhileD)
  next
    assume all: "\<forall>c \<in> set ?A. \<not> is_white_space c"
    have empty: "takeWhile (\<lambda>c. \<not> is_white_space c) (dropWhile (\<lambda>c. c \<noteq> CHR '' '') ?t) = []"
    proof (cases "dropWhile (\<lambda>c. c \<noteq> CHR '' '') ?t")
      case Nil
      show ?thesis by (simp only: Nil takeWhile.simps)
    next
      case (Cons x xs)
      then have "x = CHR '' ''"
        using hd_dropWhile [of "\<lambda>c. c \<noteq> CHR '' ''" ?t] by auto
      with sp show ?thesis by (simp only: Cons takeWhile.simps) simp
    qed
    have "?B = takeWhile (\<lambda>c. \<not> is_white_space c)
        (?A @ dropWhile (\<lambda>c. c \<noteq> CHR '' '') ?t)"
      by simp
    also have "\<dots> = ?A @ takeWhile (\<lambda>c. \<not> is_white_space c)
        (dropWhile (\<lambda>c. c \<noteq> CHR '' '') ?t)"
      using all by (intro takeWhile_append2) blast
    also have "\<dots> = ?A" by (simp only: empty append_Nil2)
    finally show "?A = ?B" by (rule sym)
  qed
  with q l show ?thesis by (simp add: list_all_iff)
qed

lemma verify_missing_events:
  "repo_missing api inp \<Longrightarrow>
   fst (verify api inp) =
     [GetRepo (org inp) (queryRepo inp),
      CreateComment (issue_org inp) (repo inp) (issue_number inp) (repoNotFound_body inp)]"
  by (auto simp add: verify_def repo_missing_def fst_andThen stop_def split: sum.splits)

text \<open>
  Claim C10, as stated, fails in two ways. White space other than U+0020 does not separate
  the words of the body, since \<open>split(' ')\<close> of line 44 splits at U+0020 only: in the
  first run below the body is \<open>/admins\<close>, a line feed, \<open>widgets\<close>; its last
  white-space-separated token is \<open>widgets\<close>, but the repository that is checked is the
  whole body, and the existing repository \<open>acme/widgets\<close> is reported as missing. And
  the \<open>repo\<close> input is not only the repository of the tracking issue: lines 64, 81 and
  95 print it in the comment text in the place of the queried repository. The comment of
  the first run speaks of the admins for \<open>requests\<close>; in the second run the queried
  repository is \<open>widgets\<close>, the collaborator listing is rejected, and the comment speaks
  of the admins for \<open>acme/requests\<close>.
\<close>

theorem queried_repository_counterexample:
  "queryRepo multiline_inputs = ''/admins\<newline>widgets'' \<and>
   last_ws_token (body multiline_inputs) = ''widgets'' \<and>
   main demo_api multiline_inputs =
     ([GetRepo ''acme'' ''/admins\<newline>widgets'',
       CreateComment ''acme-ops'' ''requests'' ''7''
         ''@octocat\<newline>\<newline>There was an error retrieving the direct admins for `requests`:\<newline>\<newline>The repository `acme//admins\<newline>widgets` does not exist in the target organization `acme`.\<newline>\<newline>Ensure you've provided the correct organization and repository name.''],
      Returned) \<and>
   repo demo_inputs = ''requests'' \<and> queryRepo demo_inputs = ''widgets'' \<and>
   main no_collaborators_api demo_inputs =
     ([GetRepo ''acme'' ''widgets'', ListCollaborators ''acme'' ''widgets'',
       CreateComment ''acme-ops'' ''requests'' ''7''
         ''@octocat\<newline>\<newline>There was an error retrieving the direct admins for `acme/requests`:\<newline>\<newline>Server Error'',
       SetFailed ''Server Error''],
      Threw (TypeError ''members''))"
  by (simp add: run_defs data_defs last_ws_token_def)


text \<open>
  Claim C10, amended. In every run the existence check, the collaborator listing and the
  team listing are requested for \<open>org\<close> and \<open>queryRepo\<close>, and every comment and the
  closing update for \<open>issue_org\<close>, \<open>repo\<close> and \<open>issue_number\<close>. \<open>queryRepo\<close> is
  the part of the trimmed body after its last character U+0020, the whole trimmed body if
  there is none; it is the last white-space-separated token exactly when it holds no
  white-space character. Besides being the repository of the tracking issue, the \<open>repo\<close>
  input is printed in the text of the comments of lines 64, 81 and 95, where the queried
  repository is meant.
\<close>

theorem queried_repository_from_body:
  "list_all (expected inp) (fst (main api inp)) \<and>
   queryRepo inp = rev (takeWhile (\<lambda>c. c \<noteq> CHR '' '') (rev (trim (body inp)))) \<and>
   (queryRepo inp = last_ws_token (body inp) \<longleftrightarrow>
      list_all (\<lambda>c. \<not> is_white_space c) (queryRepo inp)) \<and>
   (repo_missing api inp \<longrightarrow>
      CreateComment (issue_org inp) (repo inp) (issue_number inp)
        (''@'' @ actor inp @ ''\<newline>\<newline>There was an error retrieving the direct admins for `''
         @ repo inp @ ''`:\<newline>\<newline>The repository `'' @ org inp @ ''/'' @ queryRepo inp
         @ ''` does not exist in the target organization `'' @ org inp
         @ ''`.\<newline>\<newline>Ensure you've provided the correct organization and repository name.'')
        \<in> set (fst (main api inp))) \<and>
   (comments_ok api \<and> \<not> repo_missing api inp \<and>
    repos_listCollaborators api (org inp) (queryRepo inp) = Inl e \<longrightarrow>
      CreateComment (issue_org inp) (repo inp) (issue_number inp)
        (''@'' @ actor inp @ ''\<newline>\<newline>There was an error retrieving the direct admins for `''
         @ org inp @ ''/'' @ repo inp @ ''`:\<newline>\<newline>'' @ message e)
        \<in> set (fst (main api inp))) \<and>
   (comments_ok api \<and> \<not> repo_missing api inp \<and>
    repos_listCollaborators api (org inp) (queryRepo inp) = Inr members \<and>
    repos_listTeams api (org inp) (queryRepo inp) = Inl e \<longrightarrow>
      CreateComment (issue_org inp) (repo inp) (issue_number inp)
        (''@'' @ actor inp @ ''\<newline>\<newline>There was an error retrieving the teams for `''
         @ org inp @ ''/'' @ repo inp @ ''`:\<newline>\<newline>'' @ message e)
        \<in> set (fst (main api inp)))"
proof -
  have token: "queryRepo inp = rev (takeWhile (\<lambda>c. c \<noteq> CHR '' '') (rev (trim (body inp))))"
    by (simp add: queryRepo_def last_split_space)
  have missing: "CreateComment (issue_org inp) (repo inp) (issue_number inp)
        (''@'' @ actor inp @ ''\<newline>\<newline>There was an error retrieving the direct admins for `''
         @ repo inp @ ''`:\<newline>\<newline>The repository `'' @ org inp @ ''/'' @ queryRepo inp
         @ ''` does not exist in the target organization `'' @ org inp
         @ ''`.\<newline>\<newline>Ensure you've provided the correct organization and repository name.'')
        \<in> set (fst (main api inp))"
    if "repo_missing api inp"
  proof -
    have "set (fst (verify api inp)) \<subseteq> set (fst (main api inp))"
      using prefix_verify_main [of api inp] by (rule set_mono_prefix)
    then show ?thesis
      by (simp add: verify_missing_events [OF that] repoNotFound_body_def)
  qed
  have collaborators: "CreateComment (issue_org inp) (repo inp) (issue_number inp)
        (''@'' @ actor inp @ ''\<newline>\<newline>There was an error retrieving the direct admins for `''
         @ org inp @ ''/'' @ repo inp @ ''`:\<newline>\<newline>'' @ message e)
        \<in> set (fst (main api inp))"
    if "comments_ok api" and "\<not> repo_missing api inp"
      and "repos_listCollaborators api (org inp) (queryRepo inp) = Inl e"
    by (simp add: main_collaborators_rejected [OF that] collaborators_body_def)
  have teams: "CreateComment (issue_org inp) (repo inp) (issue_number inp)
        (''@'' @ actor inp @ ''\<newline>\<newline>There was an error retrieving the teams for `''
         @ org inp @ ''/'' @ repo inp @ ''`:\<newline>\<newline>'' @ message e)
        \<in> set (fst (main api inp))"
    if "comments_ok api" and "\<not> repo_missing api inp"
      and "repos_listCollaborators api (org inp) (queryRepo inp) = Inr members"
      and "repos_listTeams api (org inp) (queryRepo inp) = Inl e"
    by (simp add: main_teams_rejected [OF that] teams_body_def)
  from main_expected [of inp api] token queryRepo_last_ws_token_iff [of inp]
    missing collaborators teams
  show ?thesis by blast
qed

theorem queried_repository_from_body_witness:
  "list_all (expected demo_inputs) (fst (main demo_api demo_inputs)) \<and>
   trim (body demo_inputs) = ''/admins widgets'' \<and>
   queryRepo demo_inputs = ''widgets'' \<and>
   list_all (\<lambda>c. \<not> is_white_space c) ''widgets'' \<and>
   last_ws_token (body demo_inputs) = ''widgets'' \<and>
   repo demo_inputs = ''requests'' \<and>
   repo_missing missing_api demo_inputs \<and>
   CreateComment ''acme-ops'' ''requests'' ''7''
     ''@octocat\<newline>\<newline>There was an error retrieving the direct admins for `requests`:\<newline>\<newline>The repository `acme/widgets` does not exist in the target organization `acme`.\<newline>\<newline>Ensure you've provided the correct organization and repository name.''
     \<in> set (fst (main missing_api demo_inputs)) \<and>
   comments_ok no_collaborators_api \<and> \<not> repo_missing no_collaborators_api demo_inputs \<and>
   repos_listCollaborators no_collaborators_api ''acme'' ''widgets'' =
     Inl \<lparr>status = 500, message = ''Server Error''\<rparr> \<and>
   CreateComment ''acme-ops'' ''requests'' ''7''
     ''@octocat\<newline>\<newline>There was an error retrieving the direct admins for `acme/requests`:\<newline>\<newline>Server Error''
     \<in> set (fst (main no_collaborators_api demo_inputs)) \<and>
   comments_ok no_teams_api \<and> \<not> repo_missing no_teams_api demo_inputs \<and>
   repos_listTeams no_teams_api ''acme'' ''widgets'' =
     Inl \<lparr>status = 500, message = ''Server Error''\<rparr> \<and>
   CreateComment ''acme-ops'' ''requests'' ''7''
     ''@octocat\<newline>\<newline>There was an error retrieving the teams for `acme/requests`:\<newline>\<newline>Server Error''
     \<in> set (fst (main no_teams_api demo_inputs))"
proof -
  have inputs: "org demo_inputs = ''acme'' \<and> issue_org demo_inputs = ''acme-ops'' \<and>
      repo demo_inputs = ''requests'' \<and> issue_number demo_inputs = ''7'' \<and>
      actor demo_inputs = ''octocat''"
    by (simp add: demo_inputs_def)
  note demo = queried_repository_from_body [of demo_inputs demo_api]
  from demo have calls: "list_all (expected demo_inputs) (fst (main demo_api demo_inputs))"
    by (rule conjunct1)
  have trimmed: "trim (body demo_inputs) = ''/admins widgets''"
    by (simp add: demo_inputs_def trim_def is_white_space_def)
  have clean: "list_all (\<lambda>c. \<not> is_white_space c) ''widgets''"
    by (simp add: is_white_space_def)
  from demo have "queryRepo demo_inputs = last_ws_token (body demo_inputs) \<longleftrightarrow>
      list_all (\<lambda>c. \<not> is_white_space c) (queryRepo demo_inputs)"
    by blast
  with clean have "queryRepo demo_inputs = last_ws_token (body demo_inputs)"
    unfolding queryRepo_demo by blast
  with queryRepo_demo have token: "last_ws_token (body demo_inputs) = ''widgets''"
    by simp
  have missing: "repo_missing missing_api demo_inputs"
    by (simp add: repo_missing_def missing_api_def not_found_def)
  from queried_repository_from_body [of demo_inputs missing_api] missing
  have c64: "CreateComment ''acme-ops'' ''requests'' ''7''
     ''@octocat\<newline>\<newline>There was an error retrieving the direct admins for `requests`:\<newline>\<newline>The repository `acme/widgets` does not exist in the target organization `acme`.\<newline>\<newline>Ensure you've provided the correct organization and repository name.''
     \<in> set (fst (main missing_api demo_inputs))"
    by (simp add: inputs queryRepo_demo)
  have ok3: "comments_ok no_collaborators_api"
    by (simp add: comments_ok_def no_collaborators_api_def small_api_def)
  have present3: "\<not> repo_missing no_collaborators_api demo_inputs"
    by (simp add: repo_missing_def queryRepo_demo inputs)
       (simp add: no_collaborators_api_def small_api_def)
  have list3: "repos_listCollaborators no_collaborators_api ''acme'' ''widgets'' =
      Inl \<lparr>status = 500, message = ''Server Error''\<rparr>"
    by (simp add: no_collaborators_api_def server_error_def)
  from queried_repository_from_body [where inp = demo_inputs and api = no_collaborators_api
      and e = "\<lparr>status = 500, message = ''Server Error''\<rparr>"] ok3 present3 list3
  have c81: "CreateComment ''acme-ops'' ''requests'' ''7''
     ''@octocat\<newline>\<newline>There was an error retrieving the direct admins for `acme/requests`:\<newline>\<newline>Server Error''
     \<in> set (fst (main no_collaborators_api demo_inputs))"
    by (simp add: inputs queryRepo_demo)
  have ok4: "comments_ok no_teams_api"
    by (simp add: comments_ok_def no_teams_api_def small_api_def)
  have present4: "\<not> repo_missing no_teams_api demo_inputs"
    by (simp add: repo_missing_def queryRepo_demo inputs)
       (simp add: no_teams_api_def small_api_def)
  have list4: "repos_listCollaborators no_teams_api ''acme'' ''widgets'' =
     Inr [\<lparr>login = ''alice'', permissions_admin = True\<rparr>,
          \<lparr>login = ''bob'', permissions_admin = False\<rparr>]"
    by (simp add: no_teams_api_def small_api_def)
  have teams4: "repos_listTeams no_teams_api ''acme'' ''widgets'' =
      Inl \<lparr>status = 500, message = ''Server Error''\<rparr>"
    by (simp add: no_teams_api_def server_error_def)
  from queried_repository_from_body [where inp = demo_inputs and api = no_teams_api
      and e = "\<lparr>status = 500, message = ''Server Error''\<rparr>"
      and members = "[\<lparr>login = ''alice'', permissions_admin = True\<rparr>,
          \<lparr>login = ''bob'', permissions_admin = False\<rparr>]"] ok4 present4 list4 teams4
  have c95: "CreateComment ''acme-ops'' ''requests'' ''7''
     ''@octocat\<newline>\<newline>There was an error retrieving the teams for `acme/requests`:\<newline>\<newline>Server Error''
     \<in> set (fst (main no_teams_api demo_inputs))"
    by (simp add: inputs queryRepo_demo)
  from inputs have rp: "repo demo_inputs = ''requests''" by simp
  from calls trimmed queryRepo_demo clean token rp missing c64 ok3 present3 list3 c81
    ok4 present4 teams4 c95
  show ?thesis by (intro conjI)
qed

end
